theory Spec2Isabelle
  imports Complex_Main "HOL-Library.AList" "HOL-Library.Sublist"
begin

section \<open>Python values, exceptions and the interpreter state\<close>

text \<open>
  The program \<^verbatim>\<open>collect_anomaly_defense_coverage.py\<close> works on the values that
  \<^verbatim>\<open>json.loads\<close> produces. They are embedded as the datatype \<open>json\<close>; a Python
  \<^verbatim>\<open>dict\<close> is an association list read with \<open>map_of\<close>. A Python \<^verbatim>\<open>int\<close> is an
  unbounded integer. A Python \<^verbatim>\<open>float\<close> is a finite number, an infinity or NaN; the
  two zeros are identified. The arithmetic on floats rounds to the nearest double and
  overflows, as written out in the next subsection.
\<close>

datatype pyfloat = Finite real | PosInf | NegInf | NaN

datatype json =
    JNull
  | JBool bool
  | JInt int
  | JFloat pyfloat
  | JStr string
  | JArr "json list"
  | JObj "(string \<times> json) list"

type_synonym dict = "(string \<times> json) list"

text \<open>The exceptions the program can raise, as values.\<close>

datatype error =
    KeyError string
  | IndexError
  | TypeError
  | ValueError string
  | ZeroDivisionError
  | OverflowError
  | AttributeError
  | JSONDecodeError

text \<open>
  What \<^verbatim>\<open>print\<close> writes: one constructor for each message that carries a value of
  the computation, with the values its f-string interpolates. Banner lines of fixed text
  and the wall-clock time are not recorded.
\<close>

datatype status = PASS | FAIL

record summary_row =
  row_description :: string
  row_expected :: pyfloat
  row_actual :: pyfloat
  row_status :: status

record calculation_row =
  metric_key :: string
  success_runs :: json
  total_runs :: json
  final_rate :: pyfloat

datatype line =
    Analyst_filtered string nat
  | Info_loading string
  | Info_loaded json
  | Error_failed string error
  | Info_compliance json json
  | Calculation_table "calculation_row list"
  | Summary_table "summary_row list"
  | Conclusion bool json

text \<open>
  The hidden state of the interpreter that the program touches: the module-level random
  generator, as the sequence of raw outputs it has yet to deliver (every library call
  consumes one), and the standard output.
\<close>

record world =
  rng :: "nat \<Rightarrow> nat"
  stdout :: "line list"

text \<open>
  A statement sequence is a function from the state to a result (\<open>Inl\<close> an exception
  that was raised, \<open>Inr\<close> a value) and the state at that point.
\<close>

type_synonym 'a py = "world \<Rightarrow> (error + 'a) \<times> world"

definition py_return :: "'a \<Rightarrow> 'a py" where
  "py_return x w = (Inr x, w)"

definition py_raise :: "error \<Rightarrow> 'a py" where
  "py_raise e w = (Inl e, w)"

definition py_lift :: "error + 'a \<Rightarrow> 'a py" where
  "py_lift r w = (r, w)"

definition py_bind :: "'a py \<Rightarrow> ('a \<Rightarrow> 'b py) \<Rightarrow> 'b py" where
  "py_bind m f w = (case m w of (Inl e, w') \<Rightarrow> (Inl e, w') | (Inr x, w') \<Rightarrow> f x w')"

definition py_try :: "'a py \<Rightarrow> (error \<Rightarrow> 'a py) \<Rightarrow> 'a py" where
  \<comment> \<open>\<^verbatim>\<open>try: m  except Exception as e: h e\<close>\<close>
  "py_try m h w = (case m w of (Inl e, w') \<Rightarrow> h e w' | (Inr x, w') \<Rightarrow> (Inr x, w'))"

definition py_print :: "line \<Rightarrow> unit py" where
  "py_print l w = (Inr (), w\<lparr>stdout := stdout w @ [l]\<rparr>)"

definition returned :: "(error + 'a) \<times> world \<Rightarrow> error + 'a" where
  "returned r = fst r"

subsection \<open>The random generator\<close>

definition randint :: "int \<Rightarrow> int \<Rightarrow> (nat \<Rightarrow> nat) \<Rightarrow> int \<times> (nat \<Rightarrow> nat)" where
  "randint a b g = (a + int (g 0 mod nat (b - a + 1)), (\<lambda>n. g (Suc n)))"

fun randints :: "nat \<Rightarrow> int \<Rightarrow> int \<Rightarrow> (nat \<Rightarrow> nat) \<Rightarrow> int list \<times> (nat \<Rightarrow> nat)" where
  "randints 0 a b g = ([], g)"
| "randints (Suc n) a b g =
     (case randint a b g of (x, g1) \<Rightarrow>
        (case randints n a b g1 of (xs, g2) \<Rightarrow> (x # xs, g2)))"

definition py_randints :: "nat \<Rightarrow> int \<Rightarrow> int \<Rightarrow> int list py" where
  \<comment> \<open>\<^verbatim>\<open>[random.randint(a, b) for _ in range(n)]\<close>\<close>
  "py_randints n a b w = (case randints n a b (rng w) of (xs, g) \<Rightarrow> (Inr xs, w\<lparr>rng := g\<rparr>))"

definition py_skip_random :: "unit py" where
  \<comment> \<open>one call of \<^verbatim>\<open>random.uniform\<close> or \<^verbatim>\<open>random.getrandbits\<close> whose value is not used\<close>
  "py_skip_random w = (Inr (), w\<lparr>rng := (\<lambda>n. rng w (Suc n))\<rparr>)"

subsection \<open>Floating-point arithmetic\<close>

text \<open>
  A double is \<open>m * 2^e\<close> with \<open>\<bar>m\<bar> < 2^53\<close> and \<open>-1074 \<le> e \<le> 971\<close>. The result of an
  operation is the double nearest to the exact result, ties going to the even mantissa;
  an exact result that would round to \<open>2^1024\<close> or beyond overflows.
\<close>

definition rne :: "real \<Rightarrow> int" where
  \<comment> \<open>the nearest integer, ties to even\<close>
  "rne z =
     (let f = \<lfloor>z\<rfloor>; d = z - of_int f
      in if d < 1 / 2 then f else if 1 / 2 < d then f + 1 else if even f then f else f + 1)"

definition pow2 :: "int \<Rightarrow> real" where
  "pow2 e = 2 powr real_of_int e"

definition ulp_exponent :: "real \<Rightarrow> int" where
  \<comment> \<open>the exponent of the last mantissa bit of the doubles around \<open>y\<close>; \<open>-1074\<close> for the
      subnormal ones\<close>
  "ulp_exponent y = max (\<lfloor>log 2 \<bar>y\<bar>\<rfloor> - 52) (- 1074)"

definition nearest_double :: "real \<Rightarrow> real" where
  "nearest_double y =
     (if y = 0 then 0
      else of_int (rne (y / pow2 (ulp_exponent y))) * pow2 (ulp_exponent y))"

definition overflow_threshold :: real where
  \<comment> \<open>half-way between the largest double and \<open>2^1024\<close>\<close>
  "overflow_threshold = 2 ^ 1024 - 2 ^ 970"

definition round_finite :: "real \<Rightarrow> pyfloat" where
  \<comment> \<open>the float result of an operation on floats whose exact result is \<open>y\<close>\<close>
  "round_finite y =
     (if overflow_threshold \<le> \<bar>y\<bar> then (if 0 < y then PosInf else NegInf)
      else Finite (nearest_double y))"

definition float_literal :: "real \<Rightarrow> pyfloat" where
  \<comment> \<open>the value of a decimal literal of the source text, such as \<^verbatim>\<open>0.001\<close>\<close>
  "float_literal r = round_finite r"

definition int_to_float :: "int \<Rightarrow> error + pyfloat" where
  \<comment> \<open>conversion of an \<^verbatim>\<open>int\<close> operand: \<^verbatim>\<open>OverflowError\<close> beyond the range of a float\<close>
  "int_to_float i =
     (if overflow_threshold \<le> \<bar>of_int i\<bar> then Inl OverflowError
      else Inr (Finite (nearest_double (of_int i))))"

definition int_true_divide :: "int \<Rightarrow> int \<Rightarrow> error + pyfloat" where
  \<comment> \<open>\<^verbatim>\<open>i / j\<close> on two \<^verbatim>\<open>int\<close>s: the exact quotient, rounded once\<close>
  "int_true_divide i j =
     (if j = 0 then Inl ZeroDivisionError
      else if overflow_threshold \<le> \<bar>of_int i / of_int j\<bar> then Inl OverflowError
      else Inr (Finite (nearest_double (of_int i / of_int j))))"

fun float_div :: "pyfloat \<Rightarrow> pyfloat \<Rightarrow> error + pyfloat" where
  \<comment> \<open>\<^verbatim>\<open>x / y\<close> on two floats: a zero divisor raises, an overflow gives an infinity\<close>
  "float_div x (Finite b) =
     (if b = 0 then Inl ZeroDivisionError
      else Inr (case x of
                  Finite a \<Rightarrow> round_finite (a / b)
                | PosInf \<Rightarrow> if 0 < b then PosInf else NegInf
                | NegInf \<Rightarrow> if 0 < b then NegInf else PosInf
                | NaN \<Rightarrow> NaN))"
| "float_div (Finite a) PosInf = Inr (Finite 0)"
| "float_div (Finite a) NegInf = Inr (Finite 0)"
| "float_div x y = Inr NaN"

fun float_add :: "pyfloat \<Rightarrow> pyfloat \<Rightarrow> pyfloat" where
  "float_add (Finite a) (Finite b) = round_finite (a + b)"
| "float_add NaN y = NaN"
| "float_add x NaN = NaN"
| "float_add PosInf NegInf = NaN"
| "float_add NegInf PosInf = NaN"
| "float_add PosInf y = PosInf"
| "float_add NegInf y = NegInf"
| "float_add (Finite a) y = y"

fun float_ge :: "pyfloat \<Rightarrow> pyfloat \<Rightarrow> bool" where
  \<comment> \<open>\<^verbatim>\<open>x >= y\<close>: false whenever an operand is NaN\<close>
  "float_ge (Finite a) (Finite b) = (b \<le> a)"
| "float_ge NaN y = False"
| "float_ge x NaN = False"
| "float_ge PosInf y = True"
| "float_ge x NegInf = True"
| "float_ge x y = False"

fun float_eq :: "pyfloat \<Rightarrow> pyfloat \<Rightarrow> bool" where
  \<comment> \<open>\<^verbatim>\<open>x == y\<close>: NaN equals nothing\<close>
  "float_eq (Finite a) (Finite b) = (a = b)"
| "float_eq PosInf PosInf = True"
| "float_eq NegInf NegInf = True"
| "float_eq x y = False"

definition float_le_zero :: "pyfloat \<Rightarrow> bool" where
  \<comment> \<open>\<^verbatim>\<open>x <= 0\<close>\<close>
  "float_le_zero x = (case x of Finite a \<Rightarrow> a \<le> 0 | NegInf \<Rightarrow> True | _ \<Rightarrow> False)"

text \<open>
  The functions of the module \<^verbatim>\<open>math\<close> that the program calls. Their values are taken
  as correctly rounded; the program drops them, and what it can observe is which arguments
  make them raise. The message of their \<open>ValueError\<close> is that of CPython 3.11.
\<close>

definition math_sqrt :: "pyfloat \<Rightarrow> error + pyfloat" where
  "math_sqrt x =
     (case x of
        Finite a \<Rightarrow>
          if a < 0 then Inl (ValueError ''math domain error'')
          else Inr (Finite (nearest_double (sqrt a)))
      | PosInf \<Rightarrow> Inr PosInf
      | NegInf \<Rightarrow> Inl (ValueError ''math domain error'')
      | NaN \<Rightarrow> Inr NaN)"

definition math_sin :: "pyfloat \<Rightarrow> error + pyfloat" where
  "math_sin x =
     (case x of
        Finite a \<Rightarrow> Inr (Finite (nearest_double (sin a)))
      | NaN \<Rightarrow> Inr NaN
      | _ \<Rightarrow> Inl (ValueError ''math domain error''))"

definition math_exp :: "pyfloat \<Rightarrow> error + pyfloat" where
  "math_exp x =
     (case x of
        Finite a \<Rightarrow>
          if overflow_threshold \<le> exp a then Inl OverflowError
          else Inr (Finite (nearest_double (exp a)))
      | PosInf \<Rightarrow> Inr PosInf
      | NegInf \<Rightarrow> Inr (Finite 0)
      | NaN \<Rightarrow> Inr NaN)"

subsection \<open>Operators on dynamically typed values\<close>

definition as_int :: "json \<Rightarrow> int option" where
  \<comment> \<open>the integer types: \<^verbatim>\<open>int\<close> and \<^verbatim>\<open>bool\<close> (a subclass of \<^verbatim>\<open>int\<close>)\<close>
  "as_int v =
     (case v of JInt i \<Rightarrow> Some i | JBool b \<Rightarrow> Some (if b then 1 else 0) | _ \<Rightarrow> None)"

definition py_float :: "json \<Rightarrow> error + pyfloat" where
  \<comment> \<open>the float operand that a value becomes next to a float: \<^verbatim>\<open>TypeError\<close> for a value
      that is not a number\<close>
  "py_float v =
     (case v of
        JFloat x \<Rightarrow> Inr x
      | JInt i \<Rightarrow> int_to_float i
      | JBool b \<Rightarrow> Inr (Finite (if b then 1 else 0))
      | _ \<Rightarrow> Inl TypeError)"

definition is_number :: "json \<Rightarrow> bool" where
  "is_number v = (case v of JInt i \<Rightarrow> True | JFloat x \<Rightarrow> True | JBool b \<Rightarrow> True | _ \<Rightarrow> False)"

definition py_le_zero :: "json \<Rightarrow> error + bool" where
  \<comment> \<open>\<^verbatim>\<open>v <= 0\<close>: an \<^verbatim>\<open>int\<close> is compared exactly\<close>
  "py_le_zero v =
     (case v of
        JInt i \<Rightarrow> Inr (i \<le> 0)
      | JBool b \<Rightarrow> Inr (\<not> b)
      | JFloat x \<Rightarrow> Inr (float_le_zero x)
      | _ \<Rightarrow> Inl TypeError)"

definition py_truediv :: "json \<Rightarrow> json \<Rightarrow> error + pyfloat" where
  \<comment> \<open>\<^verbatim>\<open>a / b\<close>: two integers are divided exactly and rounded once; otherwise both
      operands are converted to floats first\<close>
  "py_truediv a b =
     (if \<not> is_number a \<or> \<not> is_number b then Inl TypeError
      else
        case as_int a of
          Some i \<Rightarrow>
            (case as_int b of
               Some j \<Rightarrow> int_true_divide i j
             | None \<Rightarrow>
                 (case int_to_float i of
                    Inl e \<Rightarrow> Inl e
                  | Inr x \<Rightarrow> (case py_float b of Inl e \<Rightarrow> Inl e | Inr y \<Rightarrow> float_div x y)))
        | None \<Rightarrow>
            (case py_float a of
               Inl e \<Rightarrow> Inl e
             | Inr x \<Rightarrow> (case py_float b of Inl e \<Rightarrow> Inl e | Inr y \<Rightarrow> float_div x y)))"

definition dict_getitem :: "dict \<Rightarrow> string \<Rightarrow> error + json" where
  \<comment> \<open>\<^verbatim>\<open>d[k]\<close> on a dict\<close>
  "dict_getitem d k = (case map_of d k of None \<Rightarrow> Inl (KeyError k) | Some v \<Rightarrow> Inr v)"

definition dict_get :: "dict \<Rightarrow> string \<Rightarrow> json \<Rightarrow> json" where
  \<comment> \<open>\<^verbatim>\<open>d.get(k, default)\<close>\<close>
  "dict_get d k dflt = (case map_of d k of None \<Rightarrow> dflt | Some v \<Rightarrow> v)"

definition py_getitem :: "json \<Rightarrow> string \<Rightarrow> error + json" where
  \<comment> \<open>\<^verbatim>\<open>v[k]\<close> with a string \<open>k\<close>: only a dict can be subscripted by a string\<close>
  "py_getitem v k = (case v of JObj d \<Rightarrow> dict_getitem d k | _ \<Rightarrow> Inl TypeError)"

definition py_iter :: "json \<Rightarrow> error + json list" where
  \<comment> \<open>the elements a \<^verbatim>\<open>for\<close> visits: of a list, the characters of a string, the keys of a dict\<close>
  "py_iter v =
     (case v of
        JArr xs \<Rightarrow> Inr xs
      | JStr s \<Rightarrow> Inr (map (\<lambda>c. JStr [c]) s)
      | JObj d \<Rightarrow> Inr (map (\<lambda>kv. JStr (fst kv)) d)
      | _ \<Rightarrow> Inl TypeError)"

section \<open>The validation placeholder and the normalizer\<close>

text \<open>
  \<^verbatim>\<open>execute_complex_validation_function\<close> uses its argument once, in
  \<^verbatim>\<open>input_value * 1.0\<close>, and returns it as it is. What that product is depends on the
  type of the argument, so the model takes it as the parameter \<open>times_one\<close>:
  \<open>float_times_one\<close> for a float, \<open>py_float\<close> for any value.
\<close>

definition float_times_one :: "pyfloat \<Rightarrow> error + pyfloat" where
  \<comment> \<open>\<^verbatim>\<open>x * 1.0\<close> on a float is exact\<close>
  "float_times_one x = Inr x"

definition execute_complex_validation_function ::
    "('v \<Rightarrow> error + pyfloat) \<Rightarrow> 'v \<Rightarrow> 'v py" where
  "execute_complex_validation_function times_one input_value =
     py_bind (py_lift (times_one input_value)) (\<lambda>product.
     py_bind (py_lift (math_sqrt (float_add product (float_literal 0.001))))
       (\<lambda>intermediate_result_A.
     py_bind (py_lift (math_sin intermediate_result_A)) (\<lambda>intermediate_result_B.
     py_bind (py_lift (math_exp intermediate_result_B)) (\<lambda>useless_consumption_C.
     py_bind (py_randints 500 1 10) (\<lambda>drawn.
     let useless_list = rev (sort drawn)
     in py_return input_value)))))"

record metric =
  total :: json
  success :: json
  rate :: pyfloat

definition zero_metric :: metric where
  \<comment> \<open>\<^verbatim>\<open>{"total": 0, "success": 0, "rate": 0.0}\<close>\<close>
  "zero_metric = \<lparr>total = JInt 0, success = JInt 0, rate = Finite 0\<rparr>"

fun count_skipped :: "json list \<Rightarrow> error + nat" where
  \<comment> \<open>\<^verbatim>\<open>sum(1 for log in logs if log['status'] == 'SKIP')\<close>\<close>
  "count_skipped [] = Inr 0"
| "count_skipped (entry # logs) =
     (case py_getitem entry ''status'' of
        Inl e \<Rightarrow> Inl e
      | Inr s \<Rightarrow>
          (case count_skipped logs of
             Inl e \<Rightarrow> Inl e
           | Inr n \<Rightarrow> Inr ((if s = JStr ''SKIP'' then 1 else 0) + n)))"

definition skipped_logs :: "dict \<Rightarrow> error + nat" where
  "skipped_logs raw_data =
     (case py_iter (dict_get raw_data ''event_logs'' (JArr [])) of
        Inl e \<Rightarrow> Inl e
      | Inr logs \<Rightarrow> count_skipped logs)"

definition parse_and_clean_raw_data :: "dict \<Rightarrow> string \<Rightarrow> metric py" where
  "parse_and_clean_raw_data raw_data metric_name =
     (if raw_data = [] then py_return zero_metric
      else
        py_bind (py_lift (skipped_logs raw_data)) (\<lambda>skipped.
        py_bind (py_lift (dict_getitem raw_data ''total_test_cases'')) (\<lambda>total_test_cases.
        py_bind (py_lift (py_le_zero total_test_cases)) (\<lambda>no_tests.
        if no_tests then py_return zero_metric
        else
          py_bind (py_lift (dict_getitem raw_data ''successful_cases'')) (\<lambda>successful_cases.
          py_bind (py_lift (py_truediv successful_cases total_test_cases)) (\<lambda>precise_rate.
          py_bind (py_print (Analyst_filtered metric_name skipped)) (\<lambda>_.
          py_bind (execute_complex_validation_function float_times_one precise_rate)
            (\<lambda>checked_rate.
          py_return \<lparr>total = total_test_cases, success = successful_cases,
                      rate = checked_rate\<rparr>))))))))"

section \<open>Configuration\<close>

definition FILE_PATHS :: "(string \<times> string) list" where
  "FILE_PATHS =
     [(''Anomaly Detection Response Rate'', ''config/test_data/anomaly_test_runs.json''),
      (''Malicious Image Detection Rate'', ''config/test_data/malicious_image_stats.json''),
      (''Data Backup and Recovery Coverage'', ''config/test_data/backup_coverage_log.json''),
      (''Configuration Check Log'', ''config/system/check_compliance_status.json'')]"

record goal =
  description :: string
  expected_value :: pyfloat
  unit_label :: string

definition PERFORMANCE_GOALS_DICT :: "(string \<times> goal) list" where
  "PERFORMANCE_GOALS_DICT =
     [(''Anomaly Detection Response Rate'',
         \<lparr>description = ''Anomaly Event Detection Response Rate'',
          expected_value = float_literal 0.90, unit_label = ''%''\<rparr>),
      (''Malicious Image Detection Rate'',
         \<lparr>description = ''Malicious Image Detection Rate'',
          expected_value = float_literal 0.95, unit_label = ''%''\<rparr>),
      (''Data Backup and Recovery Coverage'',
         \<lparr>description = ''Data Backup and Recovery Coverage'',
          expected_value = float_literal 0.90, unit_label = ''%''\<rparr>)]"

section \<open>The loader\<close>

text \<open>
  The text of a file and its parser are outside the program: \<^verbatim>\<open>get_simulated_file_content\<close>
  draws the text at random and \<^verbatim>\<open>json.loads\<close> belongs to the standard library. Both are
  parameters of the loader, the first as a statement sequence (it consumes random numbers),
  the second as a function that returns the parsed value or the exception it raises.
\<close>

definition py_contains :: "json \<Rightarrow> string \<Rightarrow> error + bool" where
  \<comment> \<open>\<^verbatim>\<open>k in v\<close>: a key of a dict, an element of a list, a substring of a string\<close>
  "py_contains v k =
     (case v of
        JObj d \<Rightarrow> Inr (map_of d k \<noteq> None)
      | JArr xs \<Rightarrow> Inr (List.member xs (JStr k))
      | JStr s \<Rightarrow> Inr (sublist k s)
      | _ \<Rightarrow> Inl TypeError)"

definition load_data_from_simulated_file ::
    "(string \<Rightarrow> string py) \<Rightarrow> (string \<Rightarrow> error + json) \<Rightarrow> string \<Rightarrow> dict py" where
  "load_data_from_simulated_file get_simulated_file_content json_loads file_path =
     (case filter (\<lambda>kv. snd kv = file_path) FILE_PATHS of
        [] \<Rightarrow> py_raise IndexError
      | kv # _ \<Rightarrow>
          py_bind (get_simulated_file_content (fst kv)) (\<lambda>file_content.
          py_bind (py_print (Info_loading file_path)) (\<lambda>_.
          py_try
            (py_bind py_skip_random (\<lambda>_.
             py_bind (py_lift (json_loads file_content)) (\<lambda>data.
             py_bind (py_lift (py_contains data ''timestamp'')) (\<lambda>present.
             if \<not> present then py_raise (ValueError ''File content lacks required metadata.'')
             else
               (case data of
                  JObj d \<Rightarrow>
                    py_bind (py_print (Info_loaded (dict_get d ''test_campaign_id'' (JStr ''N/A''))))
                      (\<lambda>_. py_return d)
                | _ \<Rightarrow> py_raise AttributeError)))))
            (\<lambda>e. py_bind (py_print (Error_failed file_path e)) (\<lambda>_. py_return [])))))"

section \<open>The report: ingestion, verdicts and overall conclusion\<close>

fun ingest ::
    "(string \<Rightarrow> string py) \<Rightarrow> (string \<Rightarrow> error + json) \<Rightarrow> (string \<times> string) list \<Rightarrow>
     (string \<times> metric) list \<Rightarrow> (string \<times> metric) list py" where
  \<comment> \<open>the loop over \<^verbatim>\<open>FILE_PATHS.items()\<close> that fills \<^verbatim>\<open>processed_metric_data\<close>\<close>
  "ingest content loads [] processed_metric_data = py_return processed_metric_data"
| "ingest content loads ((metric_name, file_path) # paths) processed_metric_data =
     (if metric_name = ''Configuration Check Log''
      then ingest content loads paths processed_metric_data
      else
        py_bind (load_data_from_simulated_file content loads file_path) (\<lambda>raw_data.
        py_bind (parse_and_clean_raw_data raw_data metric_name) (\<lambda>processed_data.
        ingest content loads paths
          (AList.update metric_name processed_data processed_metric_data))))"

definition status_of :: "pyfloat \<Rightarrow> pyfloat \<Rightarrow> status" where
  \<comment> \<open>\<^verbatim>\<open>"PASS" if actual_rate >= expected_value else "FAIL"\<close>\<close>
  "status_of actual_rate expected = (if float_ge actual_rate expected then PASS else FAIL)"

fun format_output_tables ::
    "(string \<times> metric) list \<Rightarrow> (string \<times> goal) list \<Rightarrow>
     error + (summary_row list \<times> calculation_row list)" where
  \<comment> \<open>the loop over \<^verbatim>\<open>PERFORMANCE_GOALS_DICT.items()\<close>; the display strings are kept as the
      numbers they format\<close>
  "format_output_tables processed_metric_data [] = Inr ([], [])"
| "format_output_tables processed_metric_data ((key, goal_data) # goals) =
     (case map_of processed_metric_data key of
        None \<Rightarrow> Inl (KeyError key)
      | Some actual_data \<Rightarrow>
          (case format_output_tables processed_metric_data goals of
             Inl e \<Rightarrow> Inl e
           | Inr (summary_table_data, calculation_table_data) \<Rightarrow>
               Inr (\<lparr>row_description = description goal_data,
                     row_expected = expected_value goal_data,
                     row_actual = rate actual_data,
                     row_status = status_of (rate actual_data) (expected_value goal_data)\<rparr>
                      # summary_table_data,
                    \<lparr>metric_key = key, success_runs = success actual_data,
                     total_runs = total actual_data, final_rate = rate actual_data\<rparr>
                      # calculation_table_data)))"

fun all_passed ::
    "(string \<times> metric) list \<Rightarrow> (string \<times> goal) list \<Rightarrow> string list \<Rightarrow> error + bool" where
  \<comment> \<open>\<^verbatim>\<open>all(... for key in keys)\<close>: stops at the first false element\<close>
  "all_passed processed_metric_data goals [] = Inr True"
| "all_passed processed_metric_data goals (key # keys) =
     (case map_of processed_metric_data key of
        None \<Rightarrow> Inl (KeyError key)
      | Some actual_data \<Rightarrow>
          (case map_of goals key of
             None \<Rightarrow> Inl (KeyError key)
           | Some goal_data \<Rightarrow>
               if float_ge (rate actual_data) (expected_value goal_data)
               then all_passed processed_metric_data goals keys
               else Inr False))"

definition all_metrics_passed ::
    "(string \<times> metric) list \<Rightarrow> (string \<times> goal) list \<Rightarrow> error + bool" where
  \<comment> \<open>the keys visited are those of \<^verbatim>\<open>processed_metric_data\<close>\<close>
  "all_metrics_passed processed_metric_data goals =
     all_passed processed_metric_data goals (map fst processed_metric_data)"

definition print_report ::
    "(string \<times> goal) list \<Rightarrow> (string \<times> metric) list \<Rightarrow> dict \<Rightarrow> unit py" where
  \<comment> \<open>parts 2 and 3 of \<^verbatim>\<open>generate_security_and_resilience_report\<close>\<close>
  "print_report goals processed_metric_data compliance_data =
     py_bind (py_lift (format_output_tables processed_metric_data goals)) (\<lambda>tables.
     py_bind (py_print (Calculation_table (snd tables))) (\<lambda>_.
     py_bind (py_print (Summary_table (fst tables))) (\<lambda>_.
     py_bind (py_lift (all_metrics_passed processed_metric_data goals)) (\<lambda>passed.
     py_print (Conclusion passed (dict_get compliance_data ''compliance_status'' (JStr ''N/A'')))
     ))))"

definition generate_security_and_resilience_report ::
    "(string \<Rightarrow> string py) \<Rightarrow> (string \<Rightarrow> error + json) \<Rightarrow> unit py" where
  "generate_security_and_resilience_report content loads =
     py_bind (py_lift (case map_of FILE_PATHS ''Configuration Check Log'' of
                         None \<Rightarrow> Inl (KeyError ''Configuration Check Log'')
                       | Some p \<Rightarrow> Inr p)) (\<lambda>compliance_path.
     py_bind (load_data_from_simulated_file content loads compliance_path) (\<lambda>compliance_data.
     py_bind (py_print (Info_compliance
                (dict_get compliance_data ''compliance_status'' (JStr ''UNKNOWN''))
                (dict_get compliance_data ''critical_flags'' (JInt 0)))) (\<lambda>_.
     py_bind (ingest content loads FILE_PATHS []) (\<lambda>processed_metric_data.
     py_bind py_skip_random (\<lambda>_.
     print_report PERFORMANCE_GOALS_DICT processed_metric_data compliance_data)))))"

section \<open>Well-formed records and example inputs\<close>

text \<open>
  The record schema of the specification (its section 6): \<open>event_logs\<close> is optional, and
  when present it is a sequence of objects that each carry a \<open>status\<close> field.
\<close>

definition has_status :: "json \<Rightarrow> bool" where
  "has_status entry = (case entry of JObj d \<Rightarrow> map_of d ''status'' \<noteq> None | _ \<Rightarrow> False)"

definition valid_event_logs :: "dict \<Rightarrow> bool" where
  "valid_event_logs raw_data =
     (case map_of raw_data ''event_logs'' of
        None \<Rightarrow> True
      | Some (JArr logs) \<Rightarrow> list_all has_status logs
      | Some _ \<Rightarrow> False)"

definition quiet_world :: world where
  \<comment> \<open>a state to run examples in: a generator that delivers 0, 1, 2, ...; nothing printed\<close>
  "quiet_world = \<lparr>rng = (\<lambda>n. n), stdout = []\<rparr>"

definition anomaly_record :: dict where
  \<comment> \<open>a record as \<^verbatim>\<open>get_simulated_file_content\<close> writes it: 833 of 850 runs succeeded\<close>
  "anomaly_record =
     [(''test_campaign_id'', JInt 4711),
      (''total_test_cases'', JInt 850),
      (''successful_cases'', JInt 833),
      (''failure_modes'', JArr [JStr ''Timeout'', JStr ''UnexpectedState'', JStr ''Corruption'']),
      (''timestamp'', JFloat (Finite 1700000000)),
      (''event_logs'',
         JArr [JObj [(''id'', JInt 0), (''status'', JStr ''SKIP''), (''duration_ms'', JInt 120)],
               JObj [(''id'', JInt 1), (''status'', JStr ''SUCCESS''), (''duration_ms'', JInt 75)]])]"

definition anomaly_record_all_skipped :: dict where
  \<comment> \<open>the same record with every event log entry skipped\<close>
  "anomaly_record_all_skipped =
     AList.update ''event_logs''
       (JArr [JObj [(''id'', JInt 0), (''status'', JStr ''SKIP''), (''duration_ms'', JInt 120)],
              JObj [(''id'', JInt 1), (''status'', JStr ''SKIP''), (''duration_ms'', JInt 75)],
              JObj [(''id'', JInt 2), (''status'', JStr ''SKIP''), (''duration_ms'', JInt 310)]])
       anomaly_record"

definition overcount_record :: dict where
  \<comment> \<open>more successes reported than test cases\<close>
  "overcount_record =
     [(''total_test_cases'', JInt 10), (''successful_cases'', JInt 12),
      (''timestamp'', JInt 1700000000), (''event_logs'', JArr [])]"

definition negative_record :: dict where
  \<comment> \<open>a negative number of successes\<close>
  "negative_record =
     [(''total_test_cases'', JInt 1), (''successful_cases'', JInt (- 1)),
      (''timestamp'', JInt 1700000000), (''event_logs'', JArr [])]"

definition rounding_record :: dict where
  \<comment> \<open>one success more than test cases, too few to move the rounded quotient off 1.0\<close>
  "rounding_record =
     [(''total_test_cases'', JInt (10 ^ 18)), (''successful_cases'', JInt (10 ^ 18 + 1)),
      (''timestamp'', JInt 1700000000), (''event_logs'', JArr [])]"

definition huge_record :: dict where
  \<comment> \<open>a quotient of integers beyond the range of a float\<close>
  "huge_record =
     [(''total_test_cases'', JInt 1), (''successful_cases'', JInt (10 ^ 400)),
      (''timestamp'', JInt 1700000000), (''event_logs'', JArr [])]"

definition infinite_quotient_record :: dict where
  \<comment> \<open>two finite floats, \<open>2^1023\<close> and \<open>2^-7\<close>, whose quotient overflows to infinity\<close>
  "infinite_quotient_record =
     [(''total_test_cases'', JFloat (Finite (1 / 2 ^ 7))),
      (''successful_cases'', JFloat (Finite (2 ^ 1023))),
      (''timestamp'', JInt 1700000000), (''event_logs'', JArr [])]"

definition zero_total_record :: dict where
  "zero_total_record =
     [(''total_test_cases'', JInt 0), (''successful_cases'', JInt 5),
      (''timestamp'', JInt 1700000000)]"

definition zero_total_bare_log_record :: dict where
  \<comment> \<open>no test cases, and an event log entry without a \<open>status\<close> field\<close>
  "zero_total_bare_log_record =
     [(''total_test_cases'', JInt 0), (''successful_cases'', JInt 5),
      (''event_logs'', JArr [JObj [(''id'', JInt 0)]])]"

definition three_of_four_record :: dict where
  "three_of_four_record =
     [(''total_test_cases'', JInt 4), (''successful_cases'', JInt 3),
      (''timestamp'', JInt 1700000000), (''event_logs'', JArr [])]"

definition three_of_four_bare_log_record :: dict where
  \<comment> \<open>the same record, its \<open>event_logs\<close> changed to one entry without a \<open>status\<close> field\<close>
  "three_of_four_bare_log_record =
     AList.update ''event_logs'' (JArr [JObj [(''id'', JInt 0)]]) three_of_four_record"




definition example_metrics :: "(string \<times> metric) list" where
  \<comment> \<open>833 of 850 (above the goal), 540 of 600 (below), 648 of 720 (exactly the goal)\<close>
  "example_metrics =
     [(''Anomaly Detection Response Rate'',
         \<lparr>total = JInt 850, success = JInt 833, rate = Finite (nearest_double (833 / 850))\<rparr>),
      (''Malicious Image Detection Rate'',
         \<lparr>total = JInt 600, success = JInt 540, rate = Finite (nearest_double (540 / 600))\<rparr>),
      (''Data Backup and Recovery Coverage'',
         \<lparr>total = JInt 720, success = JInt 648, rate = Finite (nearest_double (648 / 720))\<rparr>)]"

definition anomaly_metric_only :: "(string \<times> metric) list" where
  \<comment> \<open>a metric mapping that lacks two of the three goals' metrics\<close>
  "anomaly_metric_only =
     [(''Anomaly Detection Response Rate'',
         \<lparr>total = JInt 850, success = JInt 833, rate = Finite (nearest_double (833 / 850))\<rparr>)]"

definition plain_content :: "string \<Rightarrow> string py" where
  \<comment> \<open>a source whose fetch always succeeds: the text is the metric's name\<close>
  "plain_content metric_name = py_return metric_name"

definition failing_loads :: "string \<Rightarrow> error + json" where
  \<comment> \<open>a parser that rejects every text\<close>
  "failing_loads body = Inl JSONDecodeError"

section \<open>Auxiliary facts\<close>

subsection \<open>Rounding to the nearest double\<close>

lemma pow2_pos: "0 < pow2 e"
  by (simp add: pow2_def)

lemma pow2_add: "pow2 (a + b) = pow2 a * pow2 b"
  by (simp add: pow2_def powr_add)

lemma pow2_mono: "a \<le> b \<Longrightarrow> pow2 a \<le> pow2 b"
  by (simp add: pow2_def)

lemma pow2_numeral: "pow2 (numeral n) = 2 ^ numeral n"
  by (simp add: pow2_def)

lemma pow2_neg_numeral: "pow2 (- numeral n) = 1 / 2 ^ numeral n"
  by (simp add: pow2_def powr_neg_numeral)

lemma pow2_zero: "pow2 0 = 1"
  by (simp add: pow2_def)

lemma pow2_one: "pow2 1 = 2"
  by (simp add: pow2_def)

lemma pow2_minus_one: "pow2 (- 1) = 1 / 2"
  by (simp add: pow2_def)

lemma pow2_floor_log: "y \<noteq> 0 \<Longrightarrow> pow2 \<lfloor>log 2 \<bar>y\<bar>\<rfloor> \<le> \<bar>y\<bar>"
proof -
  assume "y \<noteq> 0"
  have "real_of_int \<lfloor>log 2 \<bar>y\<bar>\<rfloor> \<le> log 2 \<bar>y\<bar>" by simp
  with \<open>y \<noteq> 0\<close> show ?thesis by (simp add: pow2_def le_log_iff del: of_int_floor_le)
qed

lemma le_floor_log: "pow2 e \<le> \<bar>y\<bar> \<Longrightarrow> e \<le> \<lfloor>log 2 \<bar>y\<bar>\<rfloor>"
proof -
  assume h: "pow2 e \<le> \<bar>y\<bar>"
  then have "y \<noteq> 0" using pow2_pos[of e] by auto
  with h have "real_of_int e \<le> log 2 \<bar>y\<bar>" by (simp add: pow2_def le_log_iff)
  then show ?thesis by (simp add: le_floor_iff)
qed

lemma floor_log_less: "y \<noteq> 0 \<Longrightarrow> \<bar>y\<bar> < pow2 (e + 1) \<Longrightarrow> \<lfloor>log 2 \<bar>y\<bar>\<rfloor> \<le> e"
proof -
  assume "y \<noteq> 0" and "\<bar>y\<bar> < pow2 (e + 1)"
  then have "log 2 \<bar>y\<bar> < real_of_int (e + 1)" by (simp add: pow2_def log_less_iff)
  then show ?thesis by (simp add: floor_le_iff)
qed

lemma rne_error: "\<bar>of_int (rne z) - z\<bar> \<le> 1 / 2"
  unfolding rne_def Let_def by (auto; linarith)

lemma rne_ge: "of_int m \<le> z \<Longrightarrow> m \<le> rne z"
  unfolding rne_def Let_def by (auto simp: le_floor_iff; linarith)

lemma rne_le: "z \<le> of_int m \<Longrightarrow> rne z \<le> m"
proof (cases "z = of_int m")
  case True
  then show ?thesis by (simp add: rne_def)
next
  case False
  assume "z \<le> of_int m"
  with False have "z < of_int m" by simp
  then have "\<lfloor>z\<rfloor> < m" by (simp add: floor_less_iff)
  then show ?thesis unfolding rne_def Let_def by auto
qed

lemma nearest_double_nonneg: "0 \<le> y \<Longrightarrow> 0 \<le> nearest_double y"
  using rne_ge[of 0 "y / pow2 (ulp_exponent y)"] pow2_pos[of "ulp_exponent y"]
  by (simp add: nearest_double_def)

lemma ulp_bound:
  assumes "y \<noteq> 0"
  shows "pow2 (ulp_exponent y) \<le> \<bar>y\<bar> * pow2 (- 52) + pow2 (- 1074)"
proof (cases "- 1074 \<le> \<lfloor>log 2 \<bar>y\<bar>\<rfloor> - 52")
  case True
  then have "ulp_exponent y = \<lfloor>log 2 \<bar>y\<bar>\<rfloor> + (- 52)"
    unfolding ulp_exponent_def by linarith
  then have "pow2 (ulp_exponent y) = pow2 (\<lfloor>log 2 \<bar>y\<bar>\<rfloor> + (- 52))"
    by simp
  also have "\<dots> = pow2 \<lfloor>log 2 \<bar>y\<bar>\<rfloor> * pow2 (- 52)"
    by (rule pow2_add)
  also have "\<dots> \<le> \<bar>y\<bar> * pow2 (- 52)"
    using pow2_floor_log[OF assms] pow2_pos[of "- 52"] by (simp add: mult_right_mono)
  finally show ?thesis using pow2_pos[of "- 1074"] by linarith
next
  case False
  then have "ulp_exponent y = - 1074"
    unfolding ulp_exponent_def by linarith
  then have "pow2 (ulp_exponent y) = pow2 (- 1074)"
    by simp
  then show ?thesis using pow2_pos[of "- 52"] by simp
qed

lemma nearest_double_error:
  "\<bar>nearest_double y - y\<bar> \<le> (\<bar>y\<bar> * pow2 (- 52) + pow2 (- 1074)) / 2"
proof (cases "y = 0")
  case True
  then show ?thesis using pow2_pos[of "- 1074"] by (simp add: nearest_double_def)
next
  case False
  define u where "u = pow2 (ulp_exponent y)"
  have u: "0 < u" by (simp add: u_def pow2_pos)
  have "nearest_double y - y = (of_int (rne (y / u)) - y / u) * u"
    using False u by (simp add: nearest_double_def u_def algebra_simps)
  then have "\<bar>nearest_double y - y\<bar> = \<bar>of_int (rne (y / u)) - y / u\<bar> * u"
    using u by (simp add: abs_mult)
  also have "\<dots> \<le> 1 / 2 * u"
    using rne_error[of "y / u"] u by (intro mult_right_mono) auto
  also have "\<dots> \<le> (\<bar>y\<bar> * pow2 (- 52) + pow2 (- 1074)) / 2"
    using ulp_bound[OF False] by (simp add: u_def)
  finally show ?thesis .
qed

lemma pow2_small: "pow2 (- 52) \<le> 1 / 2 ^ 52" "pow2 (- 1074) \<le> 1 / 2 ^ 52"
  by (simp_all add: pow2_neg_numeral frac_le)

lemma nearest_double_close:
  "\<bar>nearest_double y - y\<bar> \<le> (\<bar>y\<bar> + 1) / 2 ^ 53"
proof -
  have "\<bar>y\<bar> * pow2 (- 52) \<le> \<bar>y\<bar> * (1 / 2 ^ 52)"
    by (intro mult_left_mono pow2_small) simp
  with nearest_double_error[of y] pow2_small(2) show ?thesis by (simp add: field_simps)
qed

lemma nearest_double_bound: "\<bar>nearest_double y\<bar> \<le> 2 * \<bar>y\<bar> + 1"
proof -
  have "(\<bar>y\<bar> + 1) / 2 ^ 53 \<le> \<bar>y\<bar> + 1" by (simp add: field_simps)
  with nearest_double_close[of y] have "\<bar>nearest_double y - y\<bar> \<le> \<bar>y\<bar> + 1" by linarith
  then show ?thesis by linarith
qed

lemma nearest_double_lower:
  assumes e: "- 1022 \<le> e" and y: "pow2 e \<le> y"
  shows "pow2 e \<le> nearest_double y"
proof -
  have pos: "0 < y" using y pow2_pos[of e] by linarith
  define E where "E = \<lfloor>log 2 \<bar>y\<bar>\<rfloor>"
  have eE: "e \<le> E" using le_floor_log[of e y] y pos by (simp add: E_def)
  have Ey: "pow2 E \<le> y" using pow2_floor_log[of y] pos by (simp add: E_def)
  have ue: "ulp_exponent y = E - 52" using e eE by (simp add: ulp_exponent_def E_def)
  define u where "u = pow2 (E - 52)"
  have u: "0 < u" by (simp add: u_def pow2_pos)
  have "pow2 E = pow2 (52 + (E - 52))" by simp
  also have "\<dots> = pow2 52 * u" unfolding u_def by (rule pow2_add)
  finally have Eu: "pow2 E = 2 ^ 52 * u" by (simp add: pow2_numeral)
  have "of_int (2 ^ 52) \<le> y / u" using Ey Eu u by (simp add: pos_le_divide_eq)
  then have "(2 ^ 52 :: int) \<le> rne (y / u)" by (rule rne_ge)
  then have "real_of_int (2 ^ 52) \<le> of_int (rne (y / u))" by (simp only: of_int_le_iff)
  then have "2 ^ 52 * u \<le> of_int (rne (y / u)) * u" using u by simp
  moreover have "nearest_double y = of_int (rne (y / u)) * u"
    using pos ue by (simp add: nearest_double_def u_def)
  moreover have "pow2 e \<le> pow2 E" using eE by (rule pow2_mono)
  ultimately show ?thesis using Eu by linarith
qed

lemma nearest_double_upper_neg:
  assumes e: "- 1022 \<le> e" and y: "y \<le> - pow2 e"
  shows "nearest_double y \<le> - pow2 e"
proof -
  have neg: "y < 0" using y pow2_pos[of e] by linarith
  define E where "E = \<lfloor>log 2 \<bar>y\<bar>\<rfloor>"
  have eE: "e \<le> E" using le_floor_log[of e y] y neg by (simp add: E_def)
  have Ey: "pow2 E \<le> \<bar>y\<bar>" using pow2_floor_log[of y] neg by (simp add: E_def)
  have ue: "ulp_exponent y = E - 52" using e eE by (simp add: ulp_exponent_def E_def)
  define u where "u = pow2 (E - 52)"
  have u: "0 < u" by (simp add: u_def pow2_pos)
  have "pow2 E = pow2 (52 + (E - 52))" by simp
  also have "\<dots> = pow2 52 * u" unfolding u_def by (rule pow2_add)
  finally have Eu: "pow2 E = 2 ^ 52 * u" by (simp add: pow2_numeral)
  have "y / u \<le> of_int (- (2 ^ 52))" using Ey Eu u neg by (simp add: pos_divide_le_eq)
  then have "rne (y / u) \<le> - (2 ^ 52)" by (rule rne_le)
  then have "real_of_int (rne (y / u)) \<le> of_int (- (2 ^ 52))" by (simp only: of_int_le_iff)
  then have "of_int (rne (y / u)) * u \<le> of_int (- (2 ^ 52)) * u"
    using u by (intro mult_right_mono) simp_all
  then have "of_int (rne (y / u)) * u \<le> - (2 ^ 52) * u" by simp
  moreover have "nearest_double y = of_int (rne (y / u)) * u"
    using neg ue by (simp add: nearest_double_def u_def)
  moreover have "pow2 e \<le> pow2 E" using eE by (rule pow2_mono)
  ultimately show ?thesis using Eu by linarith
qed

lemma nearest_double_eval:
  assumes "- 1022 \<le> e" and "pow2 e \<le> \<bar>y\<bar>" and "\<bar>y\<bar> < pow2 (e + 1)"
  shows "nearest_double y = of_int (rne (y / pow2 (e - 52))) * pow2 (e - 52)"
proof -
  have nz: "y \<noteq> 0" using assms(2) pow2_pos[of e] by auto
  have "\<lfloor>log 2 \<bar>y\<bar>\<rfloor> = e"
    using le_floor_log[OF assms(2)] floor_log_less[OF nz assms(3)] by simp
  then have "ulp_exponent y = e - 52" using assms(1) by (simp add: ulp_exponent_def)
  then show ?thesis using nz by (simp add: nearest_double_def)
qed

lemma nearest_double_one_plus: "nearest_double ((10 ^ 18 + 1) / 10 ^ 18) = 1"
  by (subst nearest_double_eval[where e = 0])
     (simp_all add: rne_def Let_def pow2_zero pow2_one pow2_numeral pow2_neg_numeral)

lemma nearest_double_minus_one: "nearest_double (- 1) = - 1"
  by (subst nearest_double_eval[where e = 0])
     (simp_all add: rne_def Let_def pow2_zero pow2_one pow2_numeral pow2_neg_numeral)

lemma nearest_double_ge_one: "1 \<le> y \<Longrightarrow> 1 \<le> nearest_double y"
  using nearest_double_lower[of 0 y] by (simp add: pow2_zero)

lemma float_literal_small: "\<bar>r\<bar> \<le> 1 \<Longrightarrow> float_literal r = Finite (nearest_double r)"
  by (simp add: float_literal_def round_finite_def overflow_threshold_def)

lemma literal_0_001:
  "float_literal 0.001 = Finite (nearest_double (1 / 1000))"
  "0 \<le> nearest_double (1 / 1000)" "nearest_double (1 / 1000) \<le> 1 / 500"
proof -
  have "float_literal (1 / 1000) = Finite (nearest_double (1 / 1000))"
    by (rule float_literal_small) simp
  then show "float_literal 0.001 = Finite (nearest_double (1 / 1000))" by simp
  show "0 \<le> nearest_double (1 / 1000)"
    by (rule nearest_double_nonneg) simp
  have "\<bar>nearest_double (1 / 1000) - 1 / 1000\<bar> \<le> (\<bar>1 / 1000 :: real\<bar> + 1) / 2 ^ 53"
    by (rule nearest_double_close)
  moreover have "(\<bar>1 / 1000 :: real\<bar> + 1) / 2 ^ 53 \<le> 1 / 1000" by simp
  ultimately have "\<bar>nearest_double (1 / 1000) - 1 / 1000\<bar> \<le> 1 / 1000" by linarith
  then show "nearest_double (1 / 1000) \<le> 1 / 500" by linarith
qed

lemma add_literal_nonneg:
  assumes "0 \<le> a" and "a \<le> 2 ^ 1000"
  shows "\<exists>u. float_add (Finite a) (float_literal 0.001) = Finite u \<and> 0 \<le> u"
proof -
  have "\<bar>a + nearest_double (1 / 1000)\<bar> < overflow_threshold"
    using assms literal_0_001(2,3) by (simp add: overflow_threshold_def)
  moreover have "0 \<le> nearest_double (a + nearest_double (1 / 1000))"
    using assms(1) literal_0_001(2) by (intro nearest_double_nonneg) simp
  ultimately show ?thesis
    using literal_0_001(1) by (simp add: round_finite_def)
qed

lemma nearest_double_range:
  assumes "0 \<le> y" and "y \<le> 2 ^ 998"
  shows "0 \<le> nearest_double y \<and> nearest_double y \<le> 2 ^ 1000"
proof -
  have "\<bar>nearest_double y\<bar> \<le> 2 * \<bar>y\<bar> + 1" by (rule nearest_double_bound)
  with assms show ?thesis using nearest_double_nonneg[of y] by simp
qed

subsection \<open>The validation placeholder and the normalizer\<close>

lemmas py_defs = py_bind_def py_lift_def py_return_def py_print_def py_raise_def

lemma exp_three: "exp (3::real) \<le> 27"
proof -
  have "exp (3::real) = exp 1 ^ 3"
    using exp_of_nat_mult[of 3 "1::real"] by simp
  also have "\<dots> \<le> 3 ^ 3" by (intro power_mono exp_le) simp
  finally show ?thesis by simp
qed

lemma math_exp_of_sin: "\<exists>c. math_exp (Finite (nearest_double (sin a))) = Inr c"
proof -
  have "\<bar>nearest_double (sin a)\<bar> \<le> 2 * \<bar>sin a\<bar> + 1" by (rule nearest_double_bound)
  moreover have "\<bar>sin a\<bar> \<le> 1" by simp
  ultimately have "nearest_double (sin a) \<le> 3" by linarith
  then have "exp (nearest_double (sin a)) \<le> exp 3" by simp
  moreover have "27 < overflow_threshold" by (simp add: overflow_threshold_def)
  ultimately have "exp (nearest_double (sin a)) < overflow_threshold"
    using exp_three by linarith
  then show ?thesis by (simp add: math_exp_def)
qed

lemma execute_returns:
  assumes "times_one input_value = Inr y"
    and "float_add y (float_literal 0.001) = Finite u" and "0 \<le> u"
  shows "\<exists>g. execute_complex_validation_function times_one input_value w =
           (Inr input_value, w\<lparr>rng := g\<rparr>)"
proof -
  obtain c where "math_exp (Finite (nearest_double (sin (nearest_double (sqrt u))))) = Inr c"
    using math_exp_of_sin by blast
  with assms show ?thesis
    by (auto simp: execute_complex_validation_function_def py_defs py_randints_def
        math_sqrt_def math_sin_def split: prod.split)
qed

lemma count_skipped_valid: "list_all has_status logs \<Longrightarrow> \<exists>n. count_skipped logs = Inr n"
  by (induction logs)
     (auto simp: has_status_def py_getitem_def dict_getitem_def split: json.splits)

lemma skipped_logs_valid: "valid_event_logs raw_data \<Longrightarrow> \<exists>n. skipped_logs raw_data = Inr n"
  by (auto simp: valid_event_logs_def skipped_logs_def dict_get_def py_iter_def
           intro: count_skipped_valid split: option.splits json.splits)

lemma parse_zero:
  assumes "raw_data = [] \<or>
     (valid_event_logs raw_data \<and> map_of raw_data ''total_test_cases'' = Some t \<and>
      py_le_zero t = Inr True)"
  shows "parse_and_clean_raw_data raw_data name w = (Inr zero_metric, w)"
  using assms
proof
  assume "raw_data = []"
  then show ?thesis by (simp add: parse_and_clean_raw_data_def py_defs)
next
  assume h: "valid_event_logs raw_data \<and> map_of raw_data ''total_test_cases'' = Some t \<and>
      py_le_zero t = Inr True"
  then obtain c where c: "skipped_logs raw_data = Inr c"
    using skipped_logs_valid by blast
  from h have "raw_data \<noteq> []" by auto
  with h c show ?thesis
    by (simp add: parse_and_clean_raw_data_def py_defs dict_getitem_def)
qed

lemma parse_nonzero:
  assumes "skipped_logs raw_data = Inr c"
    and "map_of raw_data ''total_test_cases'' = Some t" and "py_le_zero t = Inr False"
    and "map_of raw_data ''successful_cases'' = Some s" and "py_truediv s t = Inr q"
  shows "parse_and_clean_raw_data raw_data name w =
     (case execute_complex_validation_function float_times_one q
             (w\<lparr>stdout := stdout w @ [Analyst_filtered name c]\<rparr>) of
        (Inl e, w') \<Rightarrow> (Inl e, w')
      | (Inr r, w') \<Rightarrow> (Inr \<lparr>total = t, success = s, rate = r\<rparr>, w'))"
proof -
  from assms(2) have "raw_data \<noteq> []" by auto
  with assms show ?thesis
    by (simp add: parse_and_clean_raw_data_def py_defs dict_getitem_def
        split: prod.split sum.split)
qed

lemma parse_valid_positive:
  assumes "valid_event_logs raw_data"
    and "map_of raw_data ''total_test_cases'' = Some t" and "py_le_zero t = Inr False"
    and "map_of raw_data ''successful_cases'' = Some s" and "py_truediv s t = Inr q"
    and "float_add q (float_literal 0.001) = Finite u" and "0 \<le> u"
  shows "\<exists>w'. parse_and_clean_raw_data raw_data name w =
           (Inr \<lparr>total = t, success = s, rate = q\<rparr>, w')"
proof -
  from assms(1) obtain c where c: "skipped_logs raw_data = Inr c"
    using skipped_logs_valid by blast
  have "float_times_one q = Inr q" by (simp add: float_times_one_def)
  from execute_returns[where times_one=float_times_one and input_value=q, OF this assms(6,7)]
  obtain g where
    "execute_complex_validation_function float_times_one q
        (w\<lparr>stdout := stdout w @ [Analyst_filtered name c]\<rparr>)
      = (Inr q, w\<lparr>stdout := stdout w @ [Analyst_filtered name c]\<rparr>\<lparr>rng := g\<rparr>)"
    by blast
  then show ?thesis by (simp add: parse_nonzero[OF c assms(2-5)])
qed

lemma parse_skipped_raises:
  assumes "raw_data \<noteq> []" and "skipped_logs raw_data = Inl e"
  shows "parse_and_clean_raw_data raw_data name w = (Inl e, w)"
  using assms by (simp add: parse_and_clean_raw_data_def py_defs)

lemma parse_agree:
  assumes "raw \<noteq> []" and "raw' \<noteq> []"
    and "skipped_logs raw = Inr c" and "skipped_logs raw' = Inr c'"
    and "map_of raw ''total_test_cases'' = map_of raw' ''total_test_cases''"
    and "map_of raw ''successful_cases'' = map_of raw' ''successful_cases''"
  shows "returned (parse_and_clean_raw_data raw name w) =
         returned (parse_and_clean_raw_data raw' name' w')"
  using assms
  by (auto simp: parse_and_clean_raw_data_def py_defs dict_getitem_def returned_def
        execute_complex_validation_function_def py_randints_def
      split: option.split sum.split prod.split)

lemma parse_returned_rate:
  assumes "map_of raw_data ''total_test_cases'' = Some t" and "py_le_zero t = Inr False"
    and "returned (parse_and_clean_raw_data raw_data name w) = Inr m"
  shows "\<exists>s q. map_of raw_data ''successful_cases'' = Some s \<and> py_truediv s t = Inr q \<and>
           m = \<lparr>total = t, success = s, rate = q\<rparr>"
proof -
  from assms(1) have ne: "raw_data \<noteq> []" by auto
  show ?thesis
    using assms ne
    by (auto simp: parse_and_clean_raw_data_def py_defs dict_getitem_def returned_def
        execute_complex_validation_function_def py_randints_def
      split: option.splits sum.splits prod.splits if_splits)
qed

lemma nearest_double_three_quarters: "nearest_double (3 / 4) = 3 / 4"
  by (subst nearest_double_eval[where e = "- 1"])
     (simp_all add: rne_def Let_def pow2_zero pow2_one pow2_minus_one pow2_numeral
        pow2_neg_numeral)

lemma execute_raises_negative:
  assumes "times_one input_value = Inr (Finite a)" and "a \<le> - 1" and "- (2 ^ 1000) \<le> a"
  shows "execute_complex_validation_function times_one input_value w =
           (Inl (ValueError ''math domain error''), w)"
proof -
  have s: "a + nearest_double (1 / 1000) \<le> - pow2 (- 1)"
    using assms(2) literal_0_001(3) by (simp add: pow2_minus_one)
  have "nearest_double (a + nearest_double (1 / 1000)) \<le> - pow2 (- 1)"
    by (rule nearest_double_upper_neg[OF _ s]) simp
  then have neg: "nearest_double (a + nearest_double (1 / 1000)) < 0"
    using pow2_pos[of "- 1"] by linarith
  have "\<bar>a + nearest_double (1 / 1000)\<bar> < overflow_threshold"
    using assms(2,3) literal_0_001(2,3) by (simp add: overflow_threshold_def)
  with neg assms(1) show ?thesis
    using literal_0_001(1)
    by (simp add: execute_complex_validation_function_def py_defs round_finite_def
        math_sqrt_def)
qed

lemma execute_raises_infinite:
  assumes "times_one input_value = Inr PosInf"
  shows "execute_complex_validation_function times_one input_value w =
           (Inl (ValueError ''math domain error''), w)"
  using assms literal_0_001(1)
  by (simp add: execute_complex_validation_function_def py_defs math_sqrt_def math_sin_def)

lemma int_quotient_ge_one:
  assumes "py_le_zero (JInt j) = Inr False" and "py_truediv (JInt i) (JInt j) = Inr q"
    and "j < i"
  shows "float_ge q (Finite 1)"
proof -
  from assms(1) have j: "0 < j" by (simp add: py_le_zero_def)
  with assms(3) have "1 \<le> real_of_int i / real_of_int j" by simp
  then have "1 \<le> nearest_double (real_of_int i / real_of_int j)"
    by (rule nearest_double_ge_one)
  moreover from assms(2) j have "q = Finite (nearest_double (real_of_int i / real_of_int j))"
    by (simp add: py_truediv_def is_number_def as_int_def int_true_divide_def
        split: if_splits)
  ultimately show ?thesis by simp
qed

lemma nearest_double_separated:
  assumes "\<bar>y\<bar> \<le> 1" and "\<bar>z\<bar> \<le> 1" and "y + 1 / 2 ^ 50 \<le> z"
  shows "nearest_double y < nearest_double z"
proof -
  define d :: real where "d = 1 / 2 ^ 52"
  have d: "0 < d" "1 / 2 ^ 50 = 4 * d" by (simp_all add: d_def)
  have "(\<bar>y\<bar> + 1) / 2 ^ 53 \<le> 2 / 2 ^ 53" using assms(1) by (simp add: divide_right_mono)
  with nearest_double_close[of y] have y: "\<bar>nearest_double y - y\<bar> \<le> d" by (simp add: d_def)
  have "(\<bar>z\<bar> + 1) / 2 ^ 53 \<le> 2 / 2 ^ 53" using assms(2) by (simp add: divide_right_mono)
  with nearest_double_close[of z] have z: "\<bar>nearest_double z - z\<bar> \<le> d" by (simp add: d_def)
  from assms(3) d(2) have "y + 4 * d \<le> z" by simp
  with y z d(1) show ?thesis by linarith
qed

lemma goal_literals:
  "float_literal (9 / 10) = Finite (nearest_double (9 / 10))"
  "float_literal (19 / 20) = Finite (nearest_double (19 / 20))"
  by (simp_all add: float_literal_small)

lemma goal_order:
  "nearest_double (9 / 10) \<le> nearest_double (49 / 50)"
  "\<not> nearest_double (19 / 20) \<le> nearest_double (9 / 10)"
  "\<not> nearest_double (9 / 10) \<le> 0"
  "\<not> nearest_double (19 / 20) \<le> 0"
proof -
  show "nearest_double (9 / 10) \<le> nearest_double (49 / 50)"
    using nearest_double_separated[of "9 / 10" "49 / 50"] by simp
  show "\<not> nearest_double (19 / 20) \<le> nearest_double (9 / 10)"
    using nearest_double_separated[of "9 / 10" "19 / 20"] by simp
  show "\<not> nearest_double (9 / 10) \<le> 0"
    using nearest_double_lower[of "- 1" "9 / 10"] by (simp add: pow2_minus_one)
  show "\<not> nearest_double (19 / 20) \<le> 0"
    using nearest_double_lower[of "- 1" "19 / 20"] by (simp add: pow2_minus_one)
qed

lemma float_eq_ge: "float_eq x y \<Longrightarrow> float_ge x y"
  by (cases x; cases y) simp_all

section \<open>Properties of the normalizer\<close>

text \<open>
  \<^bold>\<open>C1\<close> (as amended). Take a raw record of the schema (\<open>event_logs\<close> absent or a list of
  objects with a \<open>status\<close> field) whose \<open>total_test_cases\<close> is greater than 0, and let
  \<open>q\<close> be the float that Python's \<open>successful_cases / total_test_cases\<close> evaluates to,
  provided it does not raise (both are numbers, no \<open>OverflowError\<close>). If \<open>q + 0.001\<close> is a
  finite float that is at least 0, the normalizer returns a metric whose rate is exactly
  \<open>q\<close>, with \<open>total\<close> and \<open>success\<close> copied from the record unchanged. Nothing is
  clamped: for integers with \<open>successful_cases > total_test_cases\<close> the rate is at least
  1.0 (it is 1.0 when the quotient rounds to it).
\<close>

theorem parse_and_clean_raw_data_rate:
  assumes "valid_event_logs raw_data"
    and "map_of raw_data ''total_test_cases'' = Some t" and "py_le_zero t = Inr False"
    and "map_of raw_data ''successful_cases'' = Some s" and "py_truediv s t = Inr q"
    and "float_add q (float_literal 0.001) = Finite u" and "0 \<le> u"
  shows "\<exists>m. returned (parse_and_clean_raw_data raw_data name w) = Inr m \<and>
           total m = t \<and> success m = s \<and> rate m = q \<and>
           (\<forall>i j. s = JInt i \<and> t = JInt j \<and> j < i \<longrightarrow> float_ge (rate m) (Finite 1))"
proof -
  obtain w' where "parse_and_clean_raw_data raw_data name w =
      (Inr \<lparr>total = t, success = s, rate = q\<rparr>, w')"
    using parse_valid_positive[OF assms] by blast
  moreover have "float_ge q (Finite 1)" if "s = JInt i" and "t = JInt j" and "j < i" for i j
    using int_quotient_ge_one[of j i q] assms(3,5) that by simp
  ultimately show ?thesis by (auto simp: returned_def)
qed

theorem parse_and_clean_raw_data_rate_witness:
  "valid_event_logs overcount_record \<and>
   (\<exists>m. returned (parse_and_clean_raw_data overcount_record ''Anomaly Detection Response Rate''
            quiet_world) = Inr m \<and>
        total m = JInt 10 \<and> success m = JInt 12 \<and>
        rate m = Finite (nearest_double (12 / 10)) \<and> float_ge (rate m) (Finite 1) \<and>
        \<not> float_ge (Finite 1) (rate m))"
proof -
  have "\<bar>nearest_double (6 / 5) - 6 / 5\<bar> \<le> (\<bar>6 / 5 :: real\<bar> + 1) / 2 ^ 53"
    by (rule nearest_double_close)
  moreover have "(\<bar>6 / 5 :: real\<bar> + 1) / 2 ^ 53 \<le> 1 / 10" by simp
  ultimately have g: "1 < nearest_double (6 / 5)" by linarith
  have v: "valid_event_logs overcount_record"
    by (simp add: valid_event_logs_def overcount_record_def)
  have t: "map_of overcount_record ''total_test_cases'' = Some (JInt 10)"
    and s: "map_of overcount_record ''successful_cases'' = Some (JInt 12)"
    by (simp_all add: overcount_record_def)
  have z: "py_le_zero (JInt 10) = Inr False" by (simp add: py_le_zero_def)
  have d: "py_truediv (JInt 12) (JInt 10) = Inr (Finite (nearest_double (12 / 10)))"
    by (simp add: py_truediv_def is_number_def as_int_def int_true_divide_def
        overflow_threshold_def)
  have "0 \<le> nearest_double (12 / 10) \<and> nearest_double (12 / 10) \<le> 2 ^ 1000"
    by (rule nearest_double_range) simp_all
  then obtain u where u: "float_add (Finite (nearest_double (12 / 10))) (float_literal 0.001)
      = Finite u" "0 \<le> u"
    using add_literal_nonneg by blast
  from parse_and_clean_raw_data_rate[OF v t z s d u,
      of "''Anomaly Detection Response Rate''" quiet_world]
  show ?thesis using v g by auto
qed

theorem parse_and_clean_raw_data_rate_counterexample:
  "returned (parse_and_clean_raw_data negative_record ''Anomaly Detection Response Rate''
     quiet_world) = Inl (ValueError ''math domain error'') \<and>
   returned (parse_and_clean_raw_data rounding_record ''Anomaly Detection Response Rate''
     quiet_world) =
     Inr \<lparr>total = JInt (10 ^ 18), success = JInt (10 ^ 18 + 1), rate = Finite 1\<rparr> \<and>
   returned (parse_and_clean_raw_data huge_record ''Anomaly Detection Response Rate''
     quiet_world) = Inl OverflowError \<and>
   returned (parse_and_clean_raw_data infinite_quotient_record
     ''Anomaly Detection Response Rate'' quiet_world) = Inl (ValueError ''math domain error'')"
proof (intro conjI)
  have c: "skipped_logs negative_record = Inr 0"
    by (simp add: skipped_logs_def negative_record_def dict_get_def py_iter_def)
  have d: "py_truediv (JInt (- 1)) (JInt 1) = Inr (Finite (- 1))"
    by (simp add: py_truediv_def is_number_def as_int_def int_true_divide_def
        overflow_threshold_def nearest_double_minus_one)
  have "parse_and_clean_raw_data negative_record ''Anomaly Detection Response Rate''
      quiet_world =
      (Inl (ValueError ''math domain error''),
       quiet_world\<lparr>stdout := stdout quiet_world @
          [Analyst_filtered ''Anomaly Detection Response Rate'' 0]\<rparr>)"
    by (subst parse_nonzero[OF c _ _ _ d])
       (simp_all add: negative_record_def py_le_zero_def
          execute_raises_negative[where a = "- 1"] float_times_one_def)
  then show "returned (parse_and_clean_raw_data negative_record
      ''Anomaly Detection Response Rate'' quiet_world) = Inl (ValueError ''math domain error'')"
    by (simp add: returned_def)
next
  have v: "valid_event_logs rounding_record"
    by (simp add: valid_event_logs_def rounding_record_def)
  have d: "py_truediv (JInt (10 ^ 18 + 1)) (JInt (10 ^ 18)) = Inr (Finite 1)"
    using nearest_double_one_plus
    by (simp add: py_truediv_def is_number_def as_int_def int_true_divide_def
        overflow_threshold_def)
  obtain u where u: "float_add (Finite 1) (float_literal 0.001) = Finite u" "0 \<le> u"
    using add_literal_nonneg[of 1] by auto
  obtain w' where "parse_and_clean_raw_data rounding_record
      ''Anomaly Detection Response Rate'' quiet_world =
      (Inr \<lparr>total = JInt (10 ^ 18), success = JInt (10 ^ 18 + 1), rate = Finite 1\<rparr>, w')"
    using parse_valid_positive[OF v _ _ _ d u, of "''Anomaly Detection Response Rate''"
        quiet_world]
    by (auto simp: rounding_record_def py_le_zero_def)
  then show "returned (parse_and_clean_raw_data rounding_record
      ''Anomaly Detection Response Rate'' quiet_world) =
     Inr \<lparr>total = JInt (10 ^ 18), success = JInt (10 ^ 18 + 1), rate = Finite 1\<rparr>"
    by (simp add: returned_def)
next
  show "returned (parse_and_clean_raw_data huge_record ''Anomaly Detection Response Rate''
     quiet_world) = Inl OverflowError"
    by (simp add: parse_and_clean_raw_data_def py_defs dict_getitem_def py_le_zero_def
        skipped_logs_def dict_get_def py_iter_def returned_def huge_record_def
        py_truediv_def is_number_def as_int_def int_true_divide_def overflow_threshold_def)
next
  have c: "skipped_logs infinite_quotient_record = Inr 0"
    by (simp add: skipped_logs_def infinite_quotient_record_def dict_get_def py_iter_def)
  have d: "py_truediv (JFloat (Finite (2 ^ 1023))) (JFloat (Finite (1 / 2 ^ 7))) = Inr PosInf"
    by (simp add: py_truediv_def is_number_def as_int_def py_float_def round_finite_def
        overflow_threshold_def)
  have "parse_and_clean_raw_data infinite_quotient_record ''Anomaly Detection Response Rate''
      quiet_world =
      (Inl (ValueError ''math domain error''),
       quiet_world\<lparr>stdout := stdout quiet_world @
          [Analyst_filtered ''Anomaly Detection Response Rate'' 0]\<rparr>)"
    by (subst parse_nonzero[OF c _ _ _ d])
       (simp_all add: infinite_quotient_record_def py_le_zero_def float_le_zero_def
          execute_raises_infinite float_times_one_def)
  then show "returned (parse_and_clean_raw_data infinite_quotient_record
     ''Anomaly Detection Response Rate'' quiet_world) = Inl (ValueError ''math domain error'')"
    by (simp add: returned_def)
qed

text \<open>
  \<^bold>\<open>C2\<close> (as amended). For every raw record that is empty, and for every raw record
  whose \<open>event_logs\<close> is absent or a list of objects with a \<open>status\<close> field and whose
  \<open>total_test_cases\<close> is less than or equal to 0, the normalizer returns
  \<open>{total: 0, success: 0, rate: 0.0}\<close>, whatever the record reports as
  \<open>successful_cases\<close> (the field may even be absent). The state is left as it was:
  nothing is printed.
\<close>

theorem parse_and_clean_raw_data_zero:
  assumes "raw_data = [] \<or>
     (valid_event_logs raw_data \<and> map_of raw_data ''total_test_cases'' = Some t \<and>
      py_le_zero t = Inr True)"
  shows "parse_and_clean_raw_data raw_data name w =
           (Inr \<lparr>total = JInt 0, success = JInt 0, rate = Finite 0\<rparr>, w)"
  using parse_zero[OF assms] by (simp add: zero_metric_def)

theorem parse_and_clean_raw_data_zero_witness:
  "valid_event_logs zero_total_record \<and>
   map_of zero_total_record ''successful_cases'' = Some (JInt 5) \<and>
   parse_and_clean_raw_data zero_total_record ''Malicious Image Detection Rate'' quiet_world =
     (Inr \<lparr>total = JInt 0, success = JInt 0, rate = Finite 0\<rparr>, quiet_world) \<and>
   parse_and_clean_raw_data [] ''Malicious Image Detection Rate'' quiet_world =
     (Inr \<lparr>total = JInt 0, success = JInt 0, rate = Finite 0\<rparr>, quiet_world)"
proof -
  have v: "valid_event_logs zero_total_record"
    by (simp add: valid_event_logs_def zero_total_record_def)
  have "parse_and_clean_raw_data zero_total_record ''Malicious Image Detection Rate'' quiet_world =
     (Inr \<lparr>total = JInt 0, success = JInt 0, rate = Finite 0\<rparr>, quiet_world)"
    using v parse_and_clean_raw_data_zero[of zero_total_record "JInt 0"]
    by (simp add: zero_total_record_def py_le_zero_def)
  moreover have "parse_and_clean_raw_data [] ''Malicious Image Detection Rate'' quiet_world =
     (Inr \<lparr>total = JInt 0, success = JInt 0, rate = Finite 0\<rparr>, quiet_world)"
    using parse_and_clean_raw_data_zero[of "[]"] by simp
  ultimately show ?thesis using v by (simp add: zero_total_record_def)
qed

theorem parse_and_clean_raw_data_zero_counterexample:
  "map_of zero_total_bare_log_record ''total_test_cases'' = Some (JInt 0) \<and>
   returned (parse_and_clean_raw_data zero_total_bare_log_record
      ''Malicious Image Detection Rate'' quiet_world) = Inl (KeyError ''status'')"
  by (simp add: parse_and_clean_raw_data_def py_defs skipped_logs_def dict_get_def
      py_iter_def py_getitem_def dict_getitem_def returned_def
      zero_total_bare_log_record_def)

text \<open>
  \<^bold>\<open>C7\<close> (as amended). Take a raw record with \<open>total_test_cases > 0\<close> and a second
  record that differs from it in \<open>event_logs\<close> only, the \<open>event_logs\<close> of both being
  absent or a list of objects with a \<open>status\<close> field. The normalizer returns the same
  value for both, in any two states, and whenever the float \<open>q\<close> that
  \<open>successful_cases / total_test_cases\<close> evaluates to has \<open>q + 0.001\<close> finite and at least
  0, that value is a metric with the rate \<open>q\<close>. Every metric that is returned has that
  quotient as its rate: the denominator is the field \<open>total_test_cases\<close>, and the count of
  skipped entries reaches the printed line only.
\<close>

theorem event_logs_do_not_alter_rate:
  assumes "map_of raw ''total_test_cases'' = Some t" and "py_le_zero t = Inr False"
    and "\<forall>key. key \<noteq> ''event_logs'' \<longrightarrow> map_of raw' key = map_of raw key"
    and "valid_event_logs raw" and "valid_event_logs raw'"
  shows "returned (parse_and_clean_raw_data raw' name w') =
         returned (parse_and_clean_raw_data raw name w) \<and>
     (\<forall>s q u. map_of raw ''successful_cases'' = Some s \<and> py_truediv s t = Inr q \<and>
        float_add q (float_literal 0.001) = Finite u \<and> 0 \<le> u \<longrightarrow>
        returned (parse_and_clean_raw_data raw' name w') =
          Inr \<lparr>total = t, success = s, rate = q\<rparr>) \<and>
     (\<forall>m. returned (parse_and_clean_raw_data raw' name w') = Inr m \<longrightarrow>
        (\<exists>s q. map_of raw ''successful_cases'' = Some s \<and> py_truediv s t = Inr q \<and>
           m = \<lparr>total = t, success = s, rate = q\<rparr>))"
proof -
  obtain c where c: "skipped_logs raw = Inr c"
    using assms(4) skipped_logs_valid by blast
  obtain c' where c': "skipped_logs raw' = Inr c'"
    using assms(5) skipped_logs_valid by blast
  have t: "map_of raw' ''total_test_cases'' = map_of raw ''total_test_cases''"
    and s: "map_of raw' ''successful_cases'' = map_of raw ''successful_cases''"
    using assms(3) by simp_all
  have "raw \<noteq> []" using assms(1) by auto
  moreover have "raw' \<noteq> []" using assms(1) t by auto
  ultimately have same: "returned (parse_and_clean_raw_data raw' name w') =
         returned (parse_and_clean_raw_data raw name w)"
    using parse_agree[OF _ _ c' c t s] by simp
  have "returned (parse_and_clean_raw_data raw' name w') = Inr \<lparr>total = t, success = s, rate = q\<rparr>"
    if h: "map_of raw ''successful_cases'' = Some s" "py_truediv s t = Inr q"
      "float_add q (float_literal 0.001) = Finite u" "0 \<le> u" for s q u
  proof -
    obtain w2 where "parse_and_clean_raw_data raw name w =
        (Inr \<lparr>total = t, success = s, rate = q\<rparr>, w2)"
      using parse_valid_positive[OF assms(4) assms(1) assms(2) h] by blast
    with same show ?thesis by (simp add: returned_def)
  qed
  moreover have "\<exists>s q. map_of raw ''successful_cases'' = Some s \<and> py_truediv s t = Inr q \<and>
      m = \<lparr>total = t, success = s, rate = q\<rparr>"
    if "returned (parse_and_clean_raw_data raw' name w') = Inr m" for m
  proof -
    from that same have "returned (parse_and_clean_raw_data raw name w) = Inr m" by simp
    from parse_returned_rate[OF assms(1,2) this] show ?thesis .
  qed
  ultimately show ?thesis using same by blast
qed

theorem event_logs_do_not_alter_rate_witness:
  "skipped_logs three_of_four_record = Inr 0 \<and>
   skipped_logs anomaly_record = Inr 1 \<and> skipped_logs anomaly_record_all_skipped = Inr 3 \<and>
   valid_event_logs anomaly_record \<and> valid_event_logs anomaly_record_all_skipped \<and>
   returned (parse_and_clean_raw_data anomaly_record
      ''Anomaly Detection Response Rate'' quiet_world) =
     Inr \<lparr>total = JInt 850, success = JInt 833,
          rate = Finite (nearest_double (833 / 850))\<rparr> \<and>
   returned (parse_and_clean_raw_data anomaly_record_all_skipped
      ''Anomaly Detection Response Rate'' quiet_world) =
     Inr \<lparr>total = JInt 850, success = JInt 833,
          rate = Finite (nearest_double (833 / 850))\<rparr>"
proof -
  have v: "valid_event_logs anomaly_record" "valid_event_logs anomaly_record_all_skipped"
    by (simp_all add: valid_event_logs_def anomaly_record_def anomaly_record_all_skipped_def
        has_status_def)
  have k: "\<forall>key. key \<noteq> ''event_logs'' \<longrightarrow>
      map_of anomaly_record_all_skipped key = map_of anomaly_record key"
    by (simp add: anomaly_record_all_skipped_def update_conv')
  have t: "map_of anomaly_record ''total_test_cases'' = Some (JInt 850)"
    and s: "map_of anomaly_record ''successful_cases'' = Some (JInt 833)"
    by (simp_all add: anomaly_record_def)
  have z: "py_le_zero (JInt 850) = Inr False" by (simp add: py_le_zero_def)
  have d: "py_truediv (JInt 833) (JInt 850) = Inr (Finite (nearest_double (833 / 850)))"
    by (simp add: py_truediv_def is_number_def as_int_def int_true_divide_def
        overflow_threshold_def)
  have "0 \<le> nearest_double (833 / 850) \<and> nearest_double (833 / 850) \<le> 2 ^ 1000"
    by (rule nearest_double_range) simp_all
  then obtain u where u: "float_add (Finite (nearest_double (833 / 850))) (float_literal 0.001)
      = Finite u" "0 \<le> u"
    using add_literal_nonneg by blast
  have c: "skipped_logs anomaly_record = Inr 1"
      "skipped_logs anomaly_record_all_skipped = Inr 3"
      "skipped_logs three_of_four_record = Inr 0"
    by (simp_all add: skipped_logs_def anomaly_record_def anomaly_record_all_skipped_def
        three_of_four_record_def dict_get_def py_iter_def py_getitem_def dict_getitem_def)
  from event_logs_do_not_alter_rate[OF t z k v,
      of "''Anomaly Detection Response Rate''" quiet_world quiet_world] s d u
  have "returned (parse_and_clean_raw_data anomaly_record_all_skipped
      ''Anomaly Detection Response Rate'' quiet_world) =
      returned (parse_and_clean_raw_data anomaly_record
      ''Anomaly Detection Response Rate'' quiet_world)"
    and "returned (parse_and_clean_raw_data anomaly_record_all_skipped
      ''Anomaly Detection Response Rate'' quiet_world) =
     Inr \<lparr>total = JInt 850, success = JInt 833,
          rate = Finite (nearest_double (833 / 850))\<rparr>"
    by blast+
  with c v show ?thesis by simp
qed

theorem event_logs_do_not_alter_rate_counterexample:
  "returned (parse_and_clean_raw_data three_of_four_record
      ''Anomaly Detection Response Rate'' quiet_world) =
     Inr \<lparr>total = JInt 4, success = JInt 3, rate = Finite (3 / 4)\<rparr> \<and>
   three_of_four_bare_log_record =
     AList.update ''event_logs'' (JArr [JObj [(''id'', JInt 0)]]) three_of_four_record \<and>
   returned (parse_and_clean_raw_data three_of_four_bare_log_record
      ''Anomaly Detection Response Rate'' quiet_world) = Inl (KeyError ''status'')"
proof (intro conjI)
  have v: "valid_event_logs three_of_four_record"
    by (simp add: valid_event_logs_def three_of_four_record_def)
  have d: "py_truediv (JInt 3) (JInt 4) = Inr (Finite (3 / 4))"
    by (simp add: py_truediv_def is_number_def as_int_def int_true_divide_def
        overflow_threshold_def nearest_double_three_quarters)
  obtain u where u: "float_add (Finite (3 / 4)) (float_literal 0.001) = Finite u" "0 \<le> u"
    using add_literal_nonneg[of "3 / 4"] by auto
  obtain w' where "parse_and_clean_raw_data three_of_four_record
      ''Anomaly Detection Response Rate'' quiet_world =
      (Inr \<lparr>total = JInt 4, success = JInt 3, rate = Finite (3 / 4)\<rparr>, w')"
    using parse_valid_positive[OF v _ _ _ d u, of "''Anomaly Detection Response Rate''"
        quiet_world]
    by (auto simp: three_of_four_record_def py_le_zero_def)
  then show "returned (parse_and_clean_raw_data three_of_four_record
      ''Anomaly Detection Response Rate'' quiet_world) =
     Inr \<lparr>total = JInt 4, success = JInt 3, rate = Finite (3 / 4)\<rparr>"
    by (simp add: returned_def)
next
  show "three_of_four_bare_log_record =
     AList.update ''event_logs'' (JArr [JObj [(''id'', JInt 0)]]) three_of_four_record"
    by (simp add: three_of_four_bare_log_record_def)
next
  show "returned (parse_and_clean_raw_data three_of_four_bare_log_record
      ''Anomaly Detection Response Rate'' quiet_world) = Inl (KeyError ''status'')"
    by (simp add: parse_and_clean_raw_data_def py_defs skipped_logs_def dict_get_def
        py_iter_def py_getitem_def dict_getitem_def returned_def
        three_of_four_bare_log_record_def three_of_four_record_def)
qed




text \<open>
  \<^bold>\<open>C9\<close>. The value the normalizer returns is a function of the record alone: a second
  call on the same record, in the state the first call left (the random generator
  advanced, a line printed), returns the same value, and so does a call in any other
  state.
\<close>

theorem parse_and_clean_raw_data_deterministic:
  "returned (parse_and_clean_raw_data raw_data name
      (snd (parse_and_clean_raw_data raw_data name w))) =
   returned (parse_and_clean_raw_data raw_data name w) \<and>
   returned (parse_and_clean_raw_data raw_data name w') =
   returned (parse_and_clean_raw_data raw_data name w)"
proof -
  have indep: "returned (parse_and_clean_raw_data raw_data name u) =
      returned (parse_and_clean_raw_data raw_data name v)" for u v
  proof (cases "raw_data = []")
    case True
    then show ?thesis by (simp add: parse_and_clean_raw_data_def py_defs returned_def)
  next
    case False
    show ?thesis
    proof (cases "skipped_logs raw_data")
      case (Inl e)
      with False show ?thesis by (simp add: parse_skipped_raises returned_def)
    next
      case (Inr c)
      with False show ?thesis by (intro parse_agree[where c=c and c'=c]) simp_all
    qed
  qed
  show ?thesis using indep by blast
qed

theorem parse_and_clean_raw_data_deterministic_witness:
  "returned (parse_and_clean_raw_data three_of_four_record ''Anomaly Detection Response Rate''
      (snd (parse_and_clean_raw_data three_of_four_record ''Anomaly Detection Response Rate''
         quiet_world))) =
   Inr \<lparr>total = JInt 4, success = JInt 3, rate = Finite (3 / 4)\<rparr>"
proof -
  have v: "valid_event_logs three_of_four_record"
    by (simp add: valid_event_logs_def three_of_four_record_def)
  have d: "py_truediv (JInt 3) (JInt 4) = Inr (Finite (3 / 4))"
    by (simp add: py_truediv_def is_number_def as_int_def int_true_divide_def
        overflow_threshold_def nearest_double_three_quarters)
  obtain u where u: "float_add (Finite (3 / 4)) (float_literal 0.001) = Finite u" "0 \<le> u"
    using add_literal_nonneg[of "3 / 4"] by auto
  obtain w' where "parse_and_clean_raw_data three_of_four_record
      ''Anomaly Detection Response Rate'' quiet_world =
      (Inr \<lparr>total = JInt 4, success = JInt 3, rate = Finite (3 / 4)\<rparr>, w')"
    using parse_valid_positive[OF v _ _ _ d u, of "''Anomaly Detection Response Rate''"
        quiet_world]
    by (auto simp: three_of_four_record_def py_le_zero_def)
  then have "returned (parse_and_clean_raw_data three_of_four_record
      ''Anomaly Detection Response Rate'' quiet_world) =
     Inr \<lparr>total = JInt 4, success = JInt 3, rate = Finite (3 / 4)\<rparr>"
    by (simp add: returned_def)
  then show ?thesis
    using parse_and_clean_raw_data_deterministic[of three_of_four_record
        "''Anomaly Detection Response Rate''" quiet_world quiet_world]
    by simp
qed

text \<open>
  \<^bold>\<open>C10\<close> (as amended). Take an input value \<open>x\<close> whose product \<open>x * 1.0\<close> is a float
  \<open>y\<close> (the product raises for a value that is not a number and for an integer beyond the
  range of a float) such that \<open>y + 0.001\<close> is a finite float that is at least 0. Then
  \<^verbatim>\<open>execute_complex_validation_function(x)\<close> returns \<open>x\<close> unchanged in every state: the
  square root, sine and exponential and the sorted random list are computed and dropped.
  It prints nothing. So for a record of the schema whose quotient
  \<open>successful_cases / total_test_cases\<close> evaluates to that float, the rate the normalizer
  returns is the quotient.
\<close>

theorem execute_complex_validation_function_identity:
  assumes "times_one input_value = Inr y"
    and "float_add y (float_literal 0.001) = Finite u" and "0 \<le> u"
  shows "returned (execute_complex_validation_function times_one input_value w) =
           Inr input_value \<and>
     stdout (snd (execute_complex_validation_function times_one input_value w)) = stdout w \<and>
     (valid_event_logs raw_data \<and> map_of raw_data ''total_test_cases'' = Some t \<and>
      py_le_zero t = Inr False \<and> map_of raw_data ''successful_cases'' = Some s \<and>
      py_truediv s t = Inr y \<longrightarrow>
        returned (parse_and_clean_raw_data raw_data name w) =
          Inr \<lparr>total = t, success = s, rate = y\<rparr>)"
proof -
  from execute_returns[where times_one=times_one and input_value=input_value, OF assms]
  obtain g where
    g: "execute_complex_validation_function times_one input_value w =
          (Inr input_value, w\<lparr>rng := g\<rparr>)"
    by blast
  have "returned (parse_and_clean_raw_data raw_data name w) =
      Inr \<lparr>total = t, success = s, rate = y\<rparr>"
    if v: "valid_event_logs raw_data" and t: "map_of raw_data ''total_test_cases'' = Some t"
      and le: "py_le_zero t = Inr False" and s: "map_of raw_data ''successful_cases'' = Some s"
      and d: "py_truediv s t = Inr y"
  proof -
    from parse_valid_positive[OF v t le s d assms(2,3), of name w] obtain w' where
      "parse_and_clean_raw_data raw_data name w =
         (Inr \<lparr>total = t, success = s, rate = y\<rparr>, w')"
      by blast
    then show ?thesis by (simp add: returned_def)
  qed
  with g show ?thesis by (simp add: returned_def)
qed

theorem execute_complex_validation_function_identity_witness:
  "py_float (JInt 3) = Inr (Finite (nearest_double 3)) \<and>
   returned (execute_complex_validation_function py_float (JInt 3) quiet_world) =
     Inr (JInt 3) \<and>
   py_truediv (JInt 833) (JInt 850) = Inr (Finite (nearest_double (833 / 850))) \<and>
   returned (execute_complex_validation_function float_times_one
      (Finite (nearest_double (833 / 850))) quiet_world) =
     Inr (Finite (nearest_double (833 / 850))) \<and>
   returned (parse_and_clean_raw_data anomaly_record ''Anomaly Detection Response Rate''
      quiet_world) =
     Inr \<lparr>total = JInt 850, success = JInt 833,
          rate = Finite (nearest_double (833 / 850))\<rparr>"
proof -
  have p: "py_float (JInt 3) = Inr (Finite (nearest_double 3))"
    by (simp add: py_float_def int_to_float_def overflow_threshold_def)
  have "0 \<le> nearest_double 3 \<and> nearest_double 3 \<le> 2 ^ 1000"
    by (rule nearest_double_range) simp_all
  then obtain u3 where u3: "float_add (Finite (nearest_double 3)) (float_literal 0.001)
      = Finite u3" "0 \<le> u3"
    using add_literal_nonneg by blast
  have v: "valid_event_logs anomaly_record"
    by (simp add: valid_event_logs_def anomaly_record_def has_status_def)
  have d: "py_truediv (JInt 833) (JInt 850) = Inr (Finite (nearest_double (833 / 850)))"
    "py_le_zero (JInt 850) = Inr False"
    by (simp_all add: py_truediv_def is_number_def as_int_def int_true_divide_def
        overflow_threshold_def py_le_zero_def)
  have f: "map_of anomaly_record ''total_test_cases'' = Some (JInt 850)"
    "map_of anomaly_record ''successful_cases'' = Some (JInt 833)"
    by (simp_all add: anomaly_record_def)
  have "0 \<le> nearest_double (833 / 850) \<and> nearest_double (833 / 850) \<le> 2 ^ 1000"
    by (rule nearest_double_range) simp_all
  then obtain u where u: "float_add (Finite (nearest_double (833 / 850))) (float_literal 0.001)
      = Finite u" "0 \<le> u"
    using add_literal_nonneg by blast
  have t: "float_times_one (Finite (nearest_double (833 / 850))) =
      Inr (Finite (nearest_double (833 / 850)))"
    by (simp add: float_times_one_def)
  from execute_complex_validation_function_identity[where times_one=py_float
      and input_value="JInt 3", OF p u3, of quiet_world]
  have a: "returned (execute_complex_validation_function py_float (JInt 3) quiet_world) =
     Inr (JInt 3)"
    by blast
  from execute_complex_validation_function_identity[where times_one=float_times_one
      and input_value="Finite (nearest_double (833 / 850))", OF t u,
      of quiet_world anomaly_record "JInt 850" "JInt 833"
        "''Anomaly Detection Response Rate''"] v d f
  have b: "returned (execute_complex_validation_function float_times_one
      (Finite (nearest_double (833 / 850))) quiet_world) =
     Inr (Finite (nearest_double (833 / 850)))"
    "returned (parse_and_clean_raw_data anomaly_record ''Anomaly Detection Response Rate''
      quiet_world) =
     Inr \<lparr>total = JInt 850, success = JInt 833,
          rate = Finite (nearest_double (833 / 850))\<rparr>"
    by blast+
  from p a d(1) b show ?thesis by blast
qed

theorem execute_complex_validation_function_identity_counterexample:
  "float_ge (float_add PosInf (float_literal 0.001)) (Finite 0) \<and>
   returned (execute_complex_validation_function float_times_one PosInf quiet_world) =
     Inl (ValueError ''math domain error'') \<and>
   returned (execute_complex_validation_function py_float (JFloat PosInf) quiet_world) =
     Inl (ValueError ''math domain error'') \<and>
   returned (execute_complex_validation_function py_float (JInt (10 ^ 400)) quiet_world) =
     Inl OverflowError"
proof (intro conjI)
  show "float_ge (float_add PosInf (float_literal 0.001)) (Finite 0)"
    using literal_0_001(1) by simp
  show "returned (execute_complex_validation_function float_times_one PosInf quiet_world) =
     Inl (ValueError ''math domain error'')"
    by (simp add: execute_raises_infinite float_times_one_def returned_def)
  show "returned (execute_complex_validation_function py_float (JFloat PosInf) quiet_world) =
     Inl (ValueError ''math domain error'')"
    by (simp add: execute_raises_infinite py_float_def returned_def)
  show "returned (execute_complex_validation_function py_float (JInt (10 ^ 400)) quiet_world) =
     Inl OverflowError"
    by (simp add: execute_complex_validation_function_def py_defs py_float_def
        int_to_float_def overflow_threshold_def returned_def)
qed

section \<open>Properties of the verdicts\<close>

lemma format_rows:
  assumes "list_all (\<lambda>kg. map_of metrics (fst kg) \<noteq> None) goals"
  shows "\<exists>ss cs. format_output_tables metrics goals = Inr (ss, cs) \<and>
     list_all2 (\<lambda>kg row. \<exists>m. map_of metrics (fst kg) = Some m \<and> row_actual row = rate m
        \<and> row_expected row = expected_value (snd kg)
        \<and> (row_status row = PASS \<longleftrightarrow> float_ge (rate m) (expected_value (snd kg)))) goals ss"
  using assms
proof (induction goals)
  case Nil
  then show ?case by simp
next
  case (Cons kg goals)
  obtain key goal_data where kg: "kg = (key, goal_data)" by (cases kg)
  from Cons.prems kg obtain m where m: "map_of metrics key = Some m" by auto
  from Cons obtain ss cs where rest: "format_output_tables metrics goals = Inr (ss, cs)"
    and rows: "list_all2 (\<lambda>kg row. \<exists>m. map_of metrics (fst kg) = Some m \<and> row_actual row = rate m
        \<and> row_expected row = expected_value (snd kg)
        \<and> (row_status row = PASS \<longleftrightarrow> float_ge (rate m) (expected_value (snd kg)))) goals ss"
    by auto
  show ?case using kg m rest rows by (simp add: status_of_def)
qed

lemma format_missing:
  assumes "(k, g) \<in> set goals" and "map_of metrics k = None"
  shows "\<exists>k'. k' \<in> fst ` set goals \<and> map_of metrics k' = None \<and>
           format_output_tables metrics goals = Inl (KeyError k')"
  using assms
proof (induction goals)
  case Nil
  then show ?case by simp
next
  case (Cons kg goals)
  obtain key goal_data where kg: "kg = (key, goal_data)" by (cases kg)
  show ?case
  proof (cases "map_of metrics key")
    case None
    with kg show ?thesis by auto
  next
    case (Some m)
    with Cons.prems kg have "(k, g) \<in> set goals" by auto
    with Cons.IH Cons.prems(2) obtain k' where "k' \<in> fst ` set goals"
      "map_of metrics k' = None" "format_output_tables metrics goals = Inl (KeyError k')"
      by blast
    with kg Some show ?thesis by auto
  qed
qed

lemma format_statuses:
  "format_output_tables metrics goals = Inr (ss, cs) \<Longrightarrow>
     list_all (\<lambda>r. row_status r = PASS) ss =
       list_all (\<lambda>kg. \<exists>m. map_of metrics (fst kg) = Some m \<and>
                    float_ge (rate m) (expected_value (snd kg))) goals
     \<and> list_all (\<lambda>kg. map_of metrics (fst kg) \<noteq> None) goals"
proof (induction goals arbitrary: ss cs)
  case Nil
  then show ?case by auto
next
  case (Cons kg goals)
  obtain key goal_data where kg: "kg = (key, goal_data)" by (cases kg)
  from Cons.prems kg obtain m ss' cs' where m: "map_of metrics key = Some m"
    and rest: "format_output_tables metrics goals = Inr (ss', cs')"
    and ss: "ss = \<lparr>row_description = description goal_data,
                     row_expected = expected_value goal_data,
                     row_actual = rate m,
                     row_status = status_of (rate m) (expected_value goal_data)\<rparr> # ss'"
    by (auto split: option.splits sum.splits)
  from Cons.IH[OF rest] kg m ss show ?case by (auto simp: status_of_def)
qed

lemma all_passed_True:
  "all_passed metrics goals keys = Inr True \<Longrightarrow> k \<in> set keys \<Longrightarrow>
     \<exists>m g. map_of metrics k = Some m \<and> map_of goals k = Some g \<and>
           float_ge (rate m) (expected_value g)"
  by (induction keys) (auto split: option.splits if_splits)

lemma all_passed_False:
  "all_passed metrics goals keys = Inr False \<Longrightarrow>
     \<exists>k m g. k \<in> set keys \<and> map_of metrics k = Some m \<and> map_of goals k = Some g \<and>
             \<not> float_ge (rate m) (expected_value g)"
  by (induction keys) (auto split: option.splits if_splits)

lemma all_passed_returns:
  "set keys \<subseteq> fst ` set metrics \<Longrightarrow> set keys \<subseteq> fst ` set goals \<Longrightarrow>
     \<not> isl (all_passed metrics goals keys)"
proof (induction keys)
  case Nil
  then show ?case by simp
next
  case (Cons key keys)
  then obtain m g where "map_of metrics key = Some m" "map_of goals key = Some g"
    by (metis (no_types, opaque_lifting) list.set_intros(1) subsetD map_of_eq_None_iff
        not_Some_eq)
  with Cons show ?case by simp
qed

lemma overall_is_conjunction:
  assumes d: "distinct (map fst goals)"
    and f: "format_output_tables metrics goals = Inr (ss, cs)"
    and a: "all_metrics_passed metrics goals = Inr b"
  shows "b = list_all (\<lambda>r. row_status r = PASS) ss"
proof (cases b)
  case True
  have "\<exists>m. map_of metrics (fst kg) = Some m \<and> float_ge (rate m) (expected_value (snd kg))"
    if kg: "kg \<in> set goals" for kg
  proof -
    from format_statuses[OF f] kg obtain m where m: "map_of metrics (fst kg) = Some m"
      by (auto simp: list_all_iff)
    then have "fst kg \<in> set (map fst metrics)"
      by (metis map_of_eq_None_iff option.distinct(1) set_map)
    moreover from a True have "all_passed metrics goals (map fst metrics) = Inr True"
      by (simp add: all_metrics_passed_def)
    ultimately obtain m' g' where "map_of metrics (fst kg) = Some m'"
        "map_of goals (fst kg) = Some g'" "float_ge (rate m') (expected_value g')"
      using all_passed_True by blast
    moreover have "map_of goals (fst kg) = Some (snd kg)"
      using d kg by (simp add: map_of_is_SomeI)
    ultimately show ?thesis using m by auto
  qed
  then show ?thesis using True format_statuses[OF f] by (simp add: list_all_iff)
next
  case False
  with a have "all_passed metrics goals (map fst metrics) = Inr False"
    by (simp add: all_metrics_passed_def)
  then obtain k m g where "map_of metrics k = Some m" "map_of goals k = Some g"
      "\<not> float_ge (rate m) (expected_value g)"
    using all_passed_False by blast
  moreover then have "(k, g) \<in> set goals" by (simp add: map_of_SomeD)
  ultimately have "\<not> list_all (\<lambda>kg. \<exists>m. map_of metrics (fst kg) = Some m \<and>
      float_ge (rate m) (expected_value (snd kg))) goals"
    by (force simp: list_all_iff)
  then show ?thesis using False format_statuses[OF f] by simp
qed

lemma example_rows:
  "\<exists>cs. format_output_tables example_metrics PERFORMANCE_GOALS_DICT =
     Inr ([\<lparr>row_description = ''Anomaly Event Detection Response Rate'',
             row_expected = float_literal 0.90,
             row_actual = Finite (nearest_double (833 / 850)), row_status = PASS\<rparr>,
           \<lparr>row_description = ''Malicious Image Detection Rate'',
             row_expected = float_literal 0.95,
             row_actual = Finite (nearest_double (540 / 600)), row_status = FAIL\<rparr>,
           \<lparr>row_description = ''Data Backup and Recovery Coverage'',
             row_expected = float_literal 0.90,
             row_actual = Finite (nearest_double (648 / 720)), row_status = PASS\<rparr>], cs)"
  by (simp add: example_metrics_def PERFORMANCE_GOALS_DICT_def status_of_def
      goal_literals goal_order)

lemma example_verdict:
  "all_metrics_passed example_metrics PERFORMANCE_GOALS_DICT = Inr False"
  by (simp add: all_metrics_passed_def example_metrics_def PERFORMANCE_GOALS_DICT_def
      goal_literals goal_order)

text \<open>
  \<^bold>\<open>C3\<close>. For every mapping of normalized metrics and every list of goals whose metrics
  it holds, the loop over the goals returns one summary row for each goal, in order, and
  the row's status is \<open>PASS\<close> if and only if the metric's rate is greater than or equal to
  the goal's expected value, in the comparison \<^verbatim>\<open>>=\<close> of floats. The boundary is
  inclusive: a rate equal to the threshold passes.
\<close>

theorem status_pass_iff_rate_reaches_goal:
  assumes "list_all (\<lambda>kg. map_of metrics (fst kg) \<noteq> None) goals"
  shows "(\<exists>ss cs. format_output_tables metrics goals = Inr (ss, cs) \<and>
     list_all2 (\<lambda>kg row. \<exists>m. map_of metrics (fst kg) = Some m \<and> row_actual row = rate m
        \<and> row_expected row = expected_value (snd kg)
        \<and> (row_status row = PASS \<longleftrightarrow> float_ge (rate m) (expected_value (snd kg)))) goals ss)
     \<and> status_of (Finite a) (Finite a) = PASS
     \<and> (status_of (Finite a) (Finite b) = PASS \<longleftrightarrow> a \<ge> b)
     \<and> (float_eq x y \<longrightarrow> status_of x y = PASS)
     \<and> (status_of x y = PASS \<longleftrightarrow> float_ge x y)"
  using format_rows[OF assms] float_eq_ge[of x y] by (simp add: status_of_def)

theorem status_pass_iff_rate_reaches_goal_witness:
  "list_all (\<lambda>kg. map_of example_metrics (fst kg) \<noteq> None) PERFORMANCE_GOALS_DICT \<and>
   (\<exists>ss cs. format_output_tables example_metrics PERFORMANCE_GOALS_DICT = Inr (ss, cs) \<and>
      map row_status ss = [PASS, FAIL, PASS] \<and>
      map row_actual ss = [Finite (nearest_double (833 / 850)),
                           Finite (nearest_double (540 / 600)),
                           Finite (nearest_double (648 / 720))] \<and>
      map row_expected ss = [float_literal 0.90, float_literal 0.95, float_literal 0.90]) \<and>
   float_eq (Finite (nearest_double (648 / 720))) (float_literal 0.90) \<and>
   status_of (Finite (nearest_double (648 / 720))) (float_literal 0.90) = PASS"
proof -
  have h: "list_all (\<lambda>kg. map_of example_metrics (fst kg) \<noteq> None) PERFORMANCE_GOALS_DICT"
    by (simp add: example_metrics_def PERFORMANCE_GOALS_DICT_def)
  have e: "float_eq (Finite (nearest_double (648 / 720))) (float_literal 0.90)"
    by (simp add: goal_literals)
  from status_pass_iff_rate_reaches_goal[OF h,
      of _ _ "Finite (nearest_double (648 / 720))" "float_literal 0.90"] e
  obtain ss cs where f: "format_output_tables example_metrics PERFORMANCE_GOALS_DICT = Inr (ss, cs)"
    and p: "status_of (Finite (nearest_double (648 / 720))) (float_literal 0.90) = PASS"
    by blast
  from f example_rows have "map row_status ss = [PASS, FAIL, PASS] \<and>
      map row_actual ss = [Finite (nearest_double (833 / 850)),
                           Finite (nearest_double (540 / 600)),
                           Finite (nearest_double (648 / 720))] \<and>
      map row_expected ss = [float_literal 0.90, float_literal 0.95, float_literal 0.90]"
    by auto
  with h e f p show ?thesis by auto
qed

text \<open>
  \<^bold>\<open>C4\<close> (as amended). The overall verdict visits the names of the metric mapping and
  looks each up among the goals. Whenever the loop over the goals and the overall verdict
  both return, the overall verdict equals the logical AND of the per-goal statuses, so it
  is false whenever at least one status is \<open>FAIL\<close>. Both return whenever the metric
  mapping and the goals have the same names, as in the program's configuration; when
  both are empty the verdict is vacuously true.
\<close>

theorem overall_verdict_is_conjunction:
  assumes "distinct (map fst goals)"
  shows "(format_output_tables metrics goals = Inr (ss, cs) \<and>
          all_metrics_passed metrics goals = Inr b
            \<longrightarrow> b = list_all (\<lambda>r. row_status r = PASS) ss)
     \<and> (set (map fst metrics) = set (map fst goals) \<longrightarrow>
            (\<exists>ss' cs' b'. format_output_tables metrics goals = Inr (ss', cs')
                \<and> all_metrics_passed metrics goals = Inr b'))
     \<and> format_output_tables [] ([] :: (string \<times> goal) list) = Inr ([], [])
     \<and> all_metrics_passed [] ([] :: (string \<times> goal) list) = Inr True"
proof (intro conjI impI)
  assume "format_output_tables metrics goals = Inr (ss, cs) \<and>
          all_metrics_passed metrics goals = Inr b"
  then show "b = list_all (\<lambda>r. row_status r = PASS) ss"
    using overall_is_conjunction[OF assms] by blast
next
  assume eq: "set (map fst metrics) = set (map fst goals)"
  then have "list_all (\<lambda>kg. map_of metrics (fst kg) \<noteq> None) goals"
    by (auto simp: list_all_iff map_of_eq_None_iff)
  then obtain ss' cs' where "format_output_tables metrics goals = Inr (ss', cs')"
    using format_rows by blast
  moreover from eq have "\<not> isl (all_metrics_passed metrics goals)"
    unfolding all_metrics_passed_def
    using all_passed_returns[of "map fst metrics" metrics goals] by auto
  then obtain b' where "all_metrics_passed metrics goals = Inr b'"
    by (cases "all_metrics_passed metrics goals") auto
  ultimately show "\<exists>ss' cs' b'. format_output_tables metrics goals = Inr (ss', cs')
                \<and> all_metrics_passed metrics goals = Inr b'" by blast
qed (simp_all add: all_metrics_passed_def)

theorem overall_verdict_is_conjunction_witness:
  "distinct (map fst PERFORMANCE_GOALS_DICT) \<and>
   set (map fst example_metrics) = set (map fst PERFORMANCE_GOALS_DICT) \<and>
   (\<exists>ss cs. format_output_tables example_metrics PERFORMANCE_GOALS_DICT = Inr (ss, cs) \<and>
      map row_status ss = [PASS, FAIL, PASS] \<and>
      all_metrics_passed example_metrics PERFORMANCE_GOALS_DICT =
        Inr (list_all (\<lambda>r. row_status r = PASS) ss)) \<and>
   all_metrics_passed example_metrics PERFORMANCE_GOALS_DICT = Inr False"
proof -
  have d: "distinct (map fst PERFORMANCE_GOALS_DICT)"
    by (simp add: PERFORMANCE_GOALS_DICT_def)
  have e: "set (map fst example_metrics) = set (map fst PERFORMANCE_GOALS_DICT)"
    by (simp add: PERFORMANCE_GOALS_DICT_def example_metrics_def)
  obtain ss cs where f: "format_output_tables example_metrics PERFORMANCE_GOALS_DICT = Inr (ss, cs)"
    and st: "map row_status ss = [PASS, FAIL, PASS]"
    using example_rows by auto
  note a = example_verdict
  from overall_verdict_is_conjunction[OF d, of example_metrics ss cs False] f a
  have "False = list_all (\<lambda>r. row_status r = PASS) ss" by blast
  with d e f st a show ?thesis by auto
qed

theorem overall_verdict_raises_counterexample:
  "format_output_tables anomaly_metric_only [] = Inr ([], []) \<and>
   all_metrics_passed anomaly_metric_only [] =
     Inl (KeyError ''Anomaly Detection Response Rate'') \<and>
   returned (print_report [] anomaly_metric_only [] quiet_world) =
     Inl (KeyError ''Anomaly Detection Response Rate'')"
  by (simp add: all_metrics_passed_def anomaly_metric_only_def print_report_def py_defs
      returned_def)

text \<open>
  \<^bold>\<open>C6\<close>. For every goal whose metric name has no entry in the normalized-metric
  mapping, the loop over the goals raises \<open>KeyError\<close> for the first such name: the goal
  is not skipped. Nothing catches the exception: the report stops with it, before any
  table is printed.
\<close>

theorem goal_without_metric_raises:
  assumes "(k, g) \<in> set goals" and "map_of metrics k = None"
  shows "\<exists>k'. k' \<in> fst ` set goals \<and> map_of metrics k' = None
     \<and> format_output_tables metrics goals = Inl (KeyError k')
     \<and> print_report goals metrics compliance_data w = (Inl (KeyError k'), w)"
proof -
  from format_missing[OF assms] obtain k' where "k' \<in> fst ` set goals"
      "map_of metrics k' = None" "format_output_tables metrics goals = Inl (KeyError k')"
    by blast
  then show ?thesis by (auto simp: print_report_def py_defs)
qed

theorem goal_without_metric_raises_witness:
  "map_of anomaly_metric_only ''Data Backup and Recovery Coverage'' = None \<and>
   format_output_tables anomaly_metric_only PERFORMANCE_GOALS_DICT =
     Inl (KeyError ''Malicious Image Detection Rate'') \<and>
   print_report PERFORMANCE_GOALS_DICT anomaly_metric_only [] quiet_world =
     (Inl (KeyError ''Malicious Image Detection Rate''), quiet_world)"
proof -
  have m: "map_of anomaly_metric_only ''Data Backup and Recovery Coverage'' = None"
    by (simp add: anomaly_metric_only_def)
  have g: "(''Data Backup and Recovery Coverage'',
         \<lparr>description = ''Data Backup and Recovery Coverage'',
          expected_value = float_literal 0.90, unit_label = ''%''\<rparr>) \<in> set PERFORMANCE_GOALS_DICT"
    by (simp add: PERFORMANCE_GOALS_DICT_def)
  have f: "format_output_tables anomaly_metric_only PERFORMANCE_GOALS_DICT =
     Inl (KeyError ''Malicious Image Detection Rate'')"
    by (simp add: anomaly_metric_only_def PERFORMANCE_GOALS_DICT_def)
  from goal_without_metric_raises[OF g m, of "[]" quiet_world] f m
  show ?thesis by auto
qed

section \<open>Properties of the loader and of the whole report\<close>

text \<open>
  For a configured source the loader has three outcomes: content that does not
  deserialize, or has no timestamp, is replaced by the empty record; an exception of the
  fetch is passed on; a dict with a timestamp is returned as it is.
\<close>

lemma configured_source:
  assumes "(name, path) \<in> set FILE_PATHS"
  shows "\<exists>rest. filter (\<lambda>kv. snd kv = path) FILE_PATHS = (name, path) # rest"
  using assms by (auto simp: FILE_PATHS_def)

lemma load_recovers_from_bad_content:
  assumes src: "(name, path) \<in> set FILE_PATHS"
    and fetch: "content name w = (Inr text, w1)"
    and bad: "loads text = Inl e \<or>
              (\<exists>d. loads text = Inr (JObj d) \<and> map_of d ''timestamp'' = None)"
  shows "\<exists>w'. load_data_from_simulated_file content loads path w = (Inr [], w')"
proof -
  from configured_source[OF src] obtain rest where
    "filter (\<lambda>kv. snd kv = path) FILE_PATHS = (name, path) # rest" by blast
  with fetch bad show ?thesis
    by (auto simp: load_data_from_simulated_file_def py_defs py_try_def py_skip_random_def
        py_contains_def)
qed

lemma load_propagates_fetch_failure:
  assumes src: "(name, path) \<in> set FILE_PATHS"
    and fetch: "content name w = (Inl e, w1)"
  shows "load_data_from_simulated_file content loads path w = (Inl e, w1)"
proof -
  from configured_source[OF src] obtain rest where
    "filter (\<lambda>kv. snd kv = path) FILE_PATHS = (name, path) # rest" by blast
  with fetch show ?thesis
    by (simp add: load_data_from_simulated_file_def py_defs)
qed

lemma load_returns_valid_content:
  assumes src: "(name, path) \<in> set FILE_PATHS"
    and fetch: "content name w = (Inr text, w1)"
    and ok: "loads text = Inr (JObj d)" "map_of d ''timestamp'' \<noteq> None"
  shows "\<exists>w'. load_data_from_simulated_file content loads path w = (Inr d, w')"
proof -
  from configured_source[OF src] obtain rest where
    "filter (\<lambda>kv. snd kv = path) FILE_PATHS = (name, path) # rest" by blast
  with fetch ok show ?thesis
    by (auto simp: load_data_from_simulated_file_def py_defs py_try_def py_skip_random_def
        py_contains_def)
qed

text \<open>
  \<^bold>\<open>C5\<close>. The loader is to return the empty record, and not to raise, for every source
  whose fetch fails, whose content does not deserialize or whose content lacks the
  timestamp. The last two hold (\<open>load_recovers_from_bad_content\<close>). The first does not:
  a location that names no configured source makes the loader raise \<open>IndexError\<close>,
  whatever the content source and the parser are. The lookup of the metric's name, and
  the fetch after it, stand before the \<^verbatim>\<open>try\<close> block, so the handler that returns the
  empty record does not see them (\<open>load_propagates_fetch_failure\<close>).
\<close>

theorem load_data_unknown_path_raises:
  "load_data_from_simulated_file content loads ''config/test_data/missing.json'' w =
     (Inl IndexError, w)"
  by (simp add: load_data_from_simulated_file_def FILE_PATHS_def py_defs)

lemma ingest_unreadable:
  assumes fetch: "\<And>name w. \<exists>body w'. content name w = (Inr body, w')"
    and bad: "\<And>body. \<exists>e. loads body = Inl e"
  shows "set paths \<subseteq> set FILE_PATHS \<Longrightarrow>
     \<exists>w'. ingest content loads paths acc w =
        (Inr (fold (\<lambda>kv acc. if fst kv = ''Configuration Check Log'' then acc
                               else AList.update (fst kv) zero_metric acc) paths acc), w')"
proof (induction paths arbitrary: acc w)
  case Nil
  then show ?case by (simp add: py_return_def)
next
  case (Cons kv paths)
  obtain metric_name file_path where kv: "kv = (metric_name, file_path)" by (cases kv)
  show ?case
  proof (cases "metric_name = ''Configuration Check Log''")
    case True
    with Cons kv show ?thesis by simp
  next
    case False
    from Cons.prems kv have src: "(metric_name, file_path) \<in> set FILE_PATHS" by simp
    from fetch obtain body w1 where f: "content metric_name w = (Inr body, w1)" by blast
    from bad obtain e where "loads body = Inl e" by blast
    with load_recovers_from_bad_content[where content=content and loads=loads, OF src f]
    obtain w2 where
      l: "load_data_from_simulated_file content loads file_path w = (Inr [], w2)" by blast
    have p: "parse_and_clean_raw_data [] metric_name w2 = (Inr zero_metric, w2)"
      by (simp add: parse_zero)
    from Cons.prems have "set paths \<subseteq> set FILE_PATHS" by simp
    from Cons.IH[OF this, of "AList.update metric_name zero_metric acc" w2]
    show ?thesis using kv False by (simp add: py_bind_def l p)
  qed
qed

text \<open>
  When every fetch delivers a text and no text deserializes, every source is replaced by
  the empty record, every metric is the zero metric, and the report runs to its end with
  the conclusion that not all metrics passed.
\<close>

theorem report_survives_unreadable_sources:
  assumes fetch: "\<And>name w. \<exists>body w'. content name w = (Inr body, w')"
    and bad: "\<And>body. \<exists>e. loads body = Inl e"
  shows "\<exists>w'. generate_security_and_resilience_report content loads w = (Inr (), w') \<and>
           last (stdout w') = Conclusion False (JStr ''N/A'')"
proof -
  have src: "(''Configuration Check Log'', ''config/system/check_compliance_status.json'')
      \<in> set FILE_PATHS"
    by (simp add: FILE_PATHS_def)
  from fetch obtain body w1 where
    f: "content ''Configuration Check Log'' w = (Inr body, w1)" by blast
  from bad obtain e where "loads body = Inl e" by blast
  with load_recovers_from_bad_content[where content=content and loads=loads, OF src f]
  obtain w2 where l: "load_data_from_simulated_file content loads
      ''config/system/check_compliance_status.json'' w = (Inr [], w2)"
    by blast
  define w3 where
    "w3 = w2\<lparr>stdout := stdout w2 @ [Info_compliance (JStr ''UNKNOWN'') (JInt 0)]\<rparr>"
  from ingest_unreadable[where content=content and loads=loads and paths=FILE_PATHS
      and acc="[]" and w=w3, OF fetch bad]
  obtain w4 where
    i: "ingest content loads FILE_PATHS [] w3 =
        (Inr [(''Anomaly Detection Response Rate'', zero_metric),
              (''Malicious Image Detection Rate'', zero_metric),
              (''Data Backup and Recovery Coverage'', zero_metric)], w4)"
    by (auto simp: FILE_PATHS_def)
  have m: "map_of FILE_PATHS ''Configuration Check Log'' =
      Some ''config/system/check_compliance_status.json''"
    by (simp add: FILE_PATHS_def)
  show ?thesis
    using i
    by (simp add: generate_security_and_resilience_report_def m l w3_def
        py_lift_def py_print_def py_bind_def dict_get_def
        py_skip_random_def print_report_def PERFORMANCE_GOALS_DICT_def zero_metric_def
        status_of_def all_metrics_passed_def goal_literals goal_order)
qed

theorem report_survives_unreadable_sources_witness:
  "\<exists>w'. generate_security_and_resilience_report plain_content failing_loads quiet_world
          = (Inr (), w') \<and>
        last (stdout w') = Conclusion False (JStr ''N/A'')"
  using report_survives_unreadable_sources[of plain_content failing_loads quiet_world]
  by (simp add: plain_content_def failing_loads_def py_return_def)

end
